theory Spec2Isabelle
  imports Main
begin

section \<open>JavaScript values\<close>

text \<open>
  The handlers work on whatever \<^verbatim>\<open>JSON.parse\<close> returns, so the model keeps JavaScript's
  dynamic values: \<open>undefined\<close>, \<open>null\<close>, booleans, numbers, strings, arrays and objects.
  An object is the list of its own properties, each name once. Numbers are integers here: the handlers
  never calculate with a number taken from a request or a response, they only test it for
  truthiness and print it. A printed number is its decimal digits; JavaScript's exponent
  form for numbers from 1e21 on, and fractions, are outside the model.
\<close>

datatype jv =
    JUndef
  | JNull
  | JBool bool
  | JNum int
  | JStr string
  | JArr "jv list"
  | JObj "(string \<times> jv) list"

text \<open>
  Every value thrown in these files is an \<^verbatim>\<open>Error\<close> object; the code reads its \<^verbatim>\<open>message\<close>
  only. The messages of the errors the runtime throws are worded as Node.js words them;
  where the runtime quotes the source expression the model gives a short form of it.
\<close>

datatype exn = Error string | TypeError string | SyntaxError string

fun message :: "exn \<Rightarrow> string" where
  "message (Error m) = m"
| "message (TypeError m) = m"
| "message (SyntaxError m) = m"

text \<open>\<^verbatim>\<open>JSON.parse\<close> is a parameter of the model: a text is parsed to a value or a SyntaxError is thrown.\<close>

type_synonym parser = "string \<Rightarrow> exn + jv"

fun truthy :: "jv \<Rightarrow> bool" where
  "truthy JUndef = False"
| "truthy JNull = False"
| "truthy (JBool b) = b"
| "truthy (JNum n) = (n \<noteq> 0)"
| "truthy (JStr s) = (s \<noteq> [])"
| "truthy (JArr xs) = True"
| "truthy (JObj kvs) = True"

fun nullish :: "jv \<Rightarrow> bool" where
  "nullish JUndef = True"
| "nullish JNull = True"
| "nullish v = False"

fun type_name :: "jv \<Rightarrow> string" where
  "type_name JNull = ''null''"
| "type_name v = ''undefined''"

definition cannot_read :: "jv \<Rightarrow> string \<Rightarrow> exn" where
  "cannot_read v k =
     TypeError (''Cannot read properties of '' @ type_name v @ '' (reading '' @ [CHR 0x27] @ k @ [CHR 0x27] @ '')'')"

text \<open>
  \<open>get v k\<close> is the property read \<^verbatim>\<open>v.k\<close> for the data properties the handlers name. On
  \<open>undefined\<close> and \<open>null\<close> it throws; an object answers with its own property or
  \<open>undefined\<close>; strings and arrays have \<^verbatim>\<open>length\<close>; any other read is \<open>undefined\<close>.
\<close>

fun get :: "jv \<Rightarrow> string \<Rightarrow> exn + jv" where
  "get (JObj kvs) k = Inr (case map_of kvs k of Some v \<Rightarrow> v | None \<Rightarrow> JUndef)"
| "get (JStr s) k = Inr (if k = ''length'' then JNum (int (length s)) else JUndef)"
| "get (JArr xs) k = Inr (if k = ''length'' then JNum (int (length xs)) else JUndef)"
| "get (JBool b) k = Inr JUndef"
| "get (JNum n) k = Inr JUndef"
| "get v k = Inl (cannot_read v k)"

text \<open>\<open>opt_get v k\<close> is the optional chain \<^verbatim>\<open>v?.k\<close>.\<close>

definition opt_get :: "jv \<Rightarrow> string \<Rightarrow> jv" where
  "opt_get v k = (if nullish v then JUndef else (case get v k of Inr w \<Rightarrow> w | Inl e \<Rightarrow> JUndef))"

text \<open>\<open>idx0 v\<close> is \<^verbatim>\<open>v[0]\<close> on a value that is neither \<open>undefined\<close> nor \<open>null\<close>; \<open>opt_idx0 v\<close> is \<^verbatim>\<open>v?.[0]\<close>.\<close>

fun idx0 :: "jv \<Rightarrow> jv" where
  "idx0 (JArr xs) = (case xs of [] \<Rightarrow> JUndef | x # rest \<Rightarrow> x)"
| "idx0 (JStr s) = (case s of [] \<Rightarrow> JUndef | c # rest \<Rightarrow> JStr [c])"
| "idx0 (JObj kvs) = (case map_of kvs ''0'' of Some v \<Rightarrow> v | None \<Rightarrow> JUndef)"
| "idx0 v = JUndef"

definition opt_idx0 :: "jv \<Rightarrow> jv" where
  "opt_idx0 v = (if nullish v then JUndef else idx0 v)"

definition not_a_function :: "string \<Rightarrow> exn" where
  "not_a_function what = TypeError (what @ '' is not a function'')"

subsection \<open>Strings\<close>

fun show_nat :: "nat \<Rightarrow> string" where
  "show_nat n =
     (if n < 10 then [''0123456789'' ! n]
      else show_nat (n div 10) @ [''0123456789'' ! (n mod 10)])"

declare show_nat.simps [simp del]

definition show_int :: "int \<Rightarrow> string" where
  "show_int n = (if n < 0 then ''-'' @ show_nat (nat (- n)) else show_nat (nat n))"

text \<open>\<open>split_on c s\<close> is \<^verbatim>\<open>s.split(c)\<close> for a separator of one character.\<close>

fun split_on :: "char \<Rightarrow> string \<Rightarrow> string list" where
  "split_on c [] = [[]]"
| "split_on c (x # xs) =
     (if x = c then [] # split_on c xs
      else (case split_on c xs of [] \<Rightarrow> [[x]] | w # ws \<Rightarrow> (x # w) # ws))"

text \<open>\<open>join_with sep xs\<close> is \<^verbatim>\<open>xs.join(sep)\<close> on an array of strings.\<close>

fun join_with :: "string \<Rightarrow> string list \<Rightarrow> string" where
  "join_with sep [] = []"
| "join_with sep [x] = x"
| "join_with sep (x # y # ys) = x @ sep @ join_with sep (y # ys)"

text \<open>\<open>str_includes s t\<close> is \<^verbatim>\<open>s.includes(t)\<close>: \<open>t\<close> occurs in \<open>s\<close> as a contiguous run.\<close>

fun is_prefix :: "string \<Rightarrow> string \<Rightarrow> bool" where
  "is_prefix [] s = True"
| "is_prefix (c # t) [] = False"
| "is_prefix (c # t) (d # s) = (c = d \<and> is_prefix t s)"

fun str_includes :: "string \<Rightarrow> string \<Rightarrow> bool" where
  "str_includes [] t = (t = [])"
| "str_includes (c # s) t = (is_prefix t (c # s) \<or> str_includes s t)"

text \<open>
  The text a template literal \<^verbatim>\<open>`${v}`\<close> inserts for \<open>v\<close>. An object prints as
  \<^verbatim>\<open>[object Object]\<close> through the inherited \<^verbatim>\<open>toString\<close>; when the object has an own property
  \<^verbatim>\<open>toString\<close> (which, coming from JSON, is never a function) the conversion throws. An
  array prints its elements joined by commas, \<open>undefined\<close> and \<open>null\<close> as nothing.
\<close>

fun convertible :: "jv \<Rightarrow> bool" where
  "convertible (JObj kvs) = (map_of kvs ''toString'' = None)"
| "convertible (JArr xs) = (\<forall>x \<in> set xs. convertible x)"
| "convertible v = True"

fun to_string :: "jv \<Rightarrow> string" where
  "to_string JUndef = ''undefined''"
| "to_string JNull = ''null''"
| "to_string (JBool b) = (if b then ''true'' else ''false'')"
| "to_string (JNum n) = show_int n"
| "to_string (JStr s) = s"
| "to_string (JArr xs) = join_with '','' (map (\<lambda>x. if nullish x then [] else to_string x) xs)"
| "to_string (JObj kvs) = ''[object Object]''"

definition template :: "jv \<Rightarrow> exn + string" where
  "template v =
     (if convertible v then Inr (to_string v)
      else Inl (TypeError ''Cannot convert object to primitive value''))"

section \<open>Requests, responses and the upstream service\<close>

text \<open>
  The options object handed to \<^verbatim>\<open>fetch\<close>. \<open>req_body\<close> is the payload object whose
  \<^verbatim>\<open>JSON.stringify\<close> text is sent.
\<close>

record request =
  req_url :: string
  req_method :: string
  req_headers :: "(string \<times> string) list"
  req_body :: jv

text \<open>
  What one \<^verbatim>\<open>fetch\<close> does: the promise rejects, or it resolves to a response with a status
  and a body whose reading (\<^verbatim>\<open>response.text()\<close>) gives the text or rejects.
\<close>

datatype fetch_result = Rejects exn | Responds nat "exn + string"

text \<open>The upstream service: the outcome of the \<open>i\<close>-th call of an invocation, for the request sent.\<close>

type_synonym upstream = "nat \<Rightarrow> request \<Rightarrow> fetch_result"

text \<open>What an invocation does besides returning: network calls and waits (base delay in ms, before jitter).\<close>

datatype effect = Fetch request | Sleep nat

text \<open>\<^verbatim>\<open>response.ok\<close>\<close>

definition ok :: "nat \<Rightarrow> bool" where
  "ok st = (200 \<le> st \<and> st \<le> 299)"

text \<open>
  The body of a returned HTTP response: absent, a plain text, or the \<^verbatim>\<open>JSON.stringify\<close> text
  of a value (kept as the value).
\<close>

datatype body = NoBody | Text string | Json jv

text \<open>The object a handler returns. A response object without \<^verbatim>\<open>headers\<close> has the empty list.\<close>

record response =
  statusCode :: nat
  headers :: "(string \<times> string) list"
  body :: body

text \<open>The inbound event: \<^verbatim>\<open>event.httpMethod\<close> and \<^verbatim>\<open>event.body\<close>.\<close>

record event =
  httpMethod :: string
  rawBody :: string

definition CORS_HEADERS :: "(string \<times> string) list" where
  "CORS_HEADERS =
     [(''Access-Control-Allow-Origin'', ''*''),
      (''Access-Control-Allow-Methods'', ''POST, OPTIONS''),
      (''Access-Control-Allow-Headers'', ''Content-Type'')]"

definition error_body :: "string \<Rightarrow> body" where
  "error_body msg = Json (JObj [(''error'', JStr msg)])"

text \<open>Sequencing of steps that may throw.\<close>

definition and_then :: "exn + 'a \<Rightarrow> ('a \<Rightarrow> exn + 'b) \<Rightarrow> exn + 'b" where
  "and_then m f = (case m of Inl e \<Rightarrow> Inl e | Inr v \<Rightarrow> f v)"

definition after :: "effect list \<Rightarrow> 'a \<times> effect list \<Rightarrow> 'a \<times> effect list" where
  "after tr p = (fst p, tr @ snd p)"

section \<open>callApiWithBackoff (the same in generateImage.js and part_001)\<close>

text \<open>
  One pass through the \<^verbatim>\<open>try\<close> block of the loop: a 429 waits and continues; any other
  status that is not ok throws inside the block; an ok response leaves the function with
  \<^verbatim>\<open>return response.json()\<close>, a promise that is not awaited inside the block, so that its
  rejection is not caught there.
\<close>

datatype outcome = Returns "exn + jv" | RateLimited | Throws exn

fun attempt :: "parser \<Rightarrow> fetch_result \<Rightarrow> outcome" where
  "attempt parse (Rejects e) = Throws e"
| "attempt parse (Responds st rd) =
     (if st = 429 then RateLimited
      else if \<not> ok st then
        (case rd of
           Inl e \<Rightarrow> Throws e
         | Inr errorBody \<Rightarrow> Throws (Error (''External API Error '' @ show_nat st @ '': '' @ errorBody)))
      else Returns (case rd of Inl e \<Rightarrow> Inl e | Inr text \<Rightarrow> parse text))"

text \<open>
  The loop \<^verbatim>\<open>for (let i = 0; i < retries; i++)\<close> from index \<open>i\<close>. The \<^verbatim>\<open>catch\<close> rethrows on
  the last index only; when the loop runs out the function returns \<open>undefined\<close>.
\<close>

function callApiWithBackoff_from ::
  "parser \<Rightarrow> upstream \<Rightarrow> request \<Rightarrow> nat \<Rightarrow> nat \<Rightarrow> (exn + jv) \<times> effect list" where
  "callApiWithBackoff_from parse fetch req retries i =
     (if i < retries then
        (case attempt parse (fetch i req) of
           Returns r \<Rightarrow> (r, [Fetch req])
         | RateLimited \<Rightarrow>
             after [Fetch req, Sleep (2 ^ i * 1000)]
               (callApiWithBackoff_from parse fetch req retries (i + 1))
         | Throws e \<Rightarrow>
             if i = retries - 1 then (Inl e, [Fetch req])
             else after [Fetch req] (callApiWithBackoff_from parse fetch req retries (i + 1)))
      else (Inr JUndef, []))"
  by pat_completeness auto
termination
  by (relation "measure (\<lambda>(parse, fetch, req, retries, i). retries - i)") auto

declare callApiWithBackoff_from.simps [simp del]

definition callApiWithBackoff ::
  "parser \<Rightarrow> upstream \<Rightarrow> request \<Rightarrow> nat \<Rightarrow> (exn + jv) \<times> effect list" where
  "callApiWithBackoff parse fetch req retries = callApiWithBackoff_from parse fetch req retries 0"

text \<open>The number of network calls in a trace.\<close>

fun is_fetch :: "effect \<Rightarrow> bool" where
  "is_fetch (Fetch r) = True"
| "is_fetch (Sleep d) = False"

definition calls :: "effect list \<Rightarrow> nat" where
  "calls tr = length (filter is_fetch tr)"

section \<open>Parts the handlers share\<close>

text \<open>\<^verbatim>\<open>!API_KEY\<close>: the environment variable is unset or empty.\<close>

fun configured :: "string option \<Rightarrow> bool" where
  "configured None = False"
| "configured (Some k) = (k \<noteq> [])"

definition key_error_body :: body where
  "key_error_body = error_body ''CRITICAL: API Key not configured on the server.''"

text \<open>The fixed responses of the two handlers that share \<open>CORS_HEADERS\<close>.\<close>

definition method_not_allowed :: response where
  "method_not_allowed =
     \<lparr>statusCode = 405, headers = CORS_HEADERS, body = Text ''Method Not Allowed''\<rparr>"

definition missing_prompt :: response where
  "missing_prompt = \<lparr>statusCode = 400, headers = CORS_HEADERS, body = Text ''Missing prompt''\<rparr>"

definition key_missing :: response where
  "key_missing = \<lparr>statusCode = 500, headers = CORS_HEADERS, body = key_error_body\<rparr>"

definition preflight :: response where
  "preflight = \<lparr>statusCode = 200, headers = CORS_HEADERS, body = NoBody\<rparr>"

text \<open>
  \<^verbatim>\<open>const { k } = v\<close>: destructuring \<open>undefined\<close> or \<open>null\<close> throws; \<open>source\<close> is the
  expression on the right as the message shows it.
\<close>

definition destructure :: "string \<Rightarrow> jv \<Rightarrow> string \<Rightarrow> exn + jv" where
  "destructure source v k =
     (if nullish v then
        Inl (TypeError (''Cannot destructure property '' @ [CHR 0x27] @ k @ [CHR 0x27] @ '' of ''
               @ [CHR 0x27] @ source @ [CHR 0x27] @ '' as it is '' @ type_name v @ ''.''))
      else get v k)"

fun map_throw :: "('a \<Rightarrow> exn + 'b) \<Rightarrow> 'a list \<Rightarrow> exn + 'b list" where
  "map_throw f [] = Inr []"
| "map_throw f (x # xs) =
     and_then (f x) (\<lambda>y. and_then (map_throw f xs) (\<lambda>ys. Inr (y # ys)))"

text \<open>
  \<^verbatim>\<open>r => `${r.category.split('_').pop()}: ${r.probability}`\<close>, the text of one safety rating:
  the category after its last underscore, then the probability.
\<close>

fun category_tail :: "jv \<Rightarrow> exn + string" where
  "category_tail (JStr c) = Inr (last (split_on (CHR ''_'') c))"
| "category_tail JUndef = Inl (cannot_read JUndef ''split'')"
| "category_tail JNull = Inl (cannot_read JNull ''split'')"
| "category_tail v = Inl (not_a_function ''r.category.split'')"

definition rating_text :: "jv \<Rightarrow> exn + string" where
  "rating_text r =
     and_then (get r ''category'') (\<lambda>category.
     and_then (category_tail category) (\<lambda>tail.
     and_then (template (opt_get r ''probability'')) (\<lambda>probability.
     Inr (tail @ '': '' @ probability))))"

text \<open>
  \<^verbatim>\<open>safetyRatings?.map(...).join('; ')\<close>: \<open>undefined\<close> when there are no ratings (the
  optional chain skips the rest), the joined texts for an array, and a TypeError for any
  other value, which has no \<^verbatim>\<open>map\<close>.
\<close>

fun safety_summary :: "jv \<Rightarrow> exn + jv" where
  "safety_summary JUndef = Inr JUndef"
| "safety_summary JNull = Inr JUndef"
| "safety_summary (JArr rs) =
     and_then (map_throw rating_text rs) (\<lambda>texts. Inr (JStr (join_with ''; '' texts)))"
| "safety_summary v = Inl (not_a_function ''safetyRatings.map'')"

text \<open>The \<^verbatim>\<open>errorMessage\<close> chosen from the summary, and the 500 response carrying it.\<close>

definition filtered_message :: "jv \<Rightarrow> string" where
  "filtered_message safetyRating =
     (if truthy safetyRating
      then ''Image was filtered by safety systems. Ratings: '' @ to_string safetyRating
      else ''Could not extract image data from API response (check Netlify logs for full response).'')"

definition no_image_response :: "jv \<Rightarrow> response" where
  "no_image_response safetyRating =
     \<lparr>statusCode = 500, headers = CORS_HEADERS,
      body = error_body (''Generation Error: '' @ filtered_message safetyRating)\<rparr>"

definition image_response :: "jv \<Rightarrow> exn + response" where
  "image_response base64Data =
     and_then (template base64Data) (\<lambda>text.
     Inr \<lparr>statusCode = 200, headers = CORS_HEADERS,
          body = Json (JObj [(''imageUrl'', JStr (''data:image/png;base64,'' @ text))])\<rparr>)"

subsection \<open>The catch block of the two handlers that call callApiWithBackoff\<close>

fun strip_prefix :: "string \<Rightarrow> string \<Rightarrow> string option" where
  "strip_prefix [] s = Some s"
| "strip_prefix (c # t) [] = None"
| "strip_prefix (c # t) (d # s) = (if c = d then strip_prefix t s else None)"

definition is_digit :: "char \<Rightarrow> bool" where
  "is_digit c = (c \<in> set ''0123456789'')"

text \<open>
  \<^verbatim>\<open>/External API Error \d+: (.*)/s\<close> tried at the start of \<open>s\<close>: the digits are taken
  greedily (what follows them must be a colon, so giving digits back never helps) and the
  group takes the rest of the text. \<open>match_api_error\<close> tries every start from the left
  and gives \<^verbatim>\<open>match[1]\<close>.
\<close>

definition match_here :: "string \<Rightarrow> string option" where
  "match_here s =
     (case strip_prefix ''External API Error '' s of
        None \<Rightarrow> None
      | Some r \<Rightarrow>
          if takeWhile is_digit r = [] then None
          else strip_prefix '': '' (dropWhile is_digit r))"

fun match_api_error :: "string \<Rightarrow> string option" where
  "match_api_error [] = match_here []"
| "match_api_error (c # s) =
     (case match_here (c # s) of Some g \<Rightarrow> Some g | None \<Rightarrow> match_api_error s)"

text \<open>
  The inner \<^verbatim>\<open>try\<close> of the catch block: the nested upstream message when the text matches,
  parses and has a truthy \<^verbatim>\<open>error.message\<close>; otherwise, and on any exception, the message
  of the error itself.
\<close>

definition unwrap_message :: "parser \<Rightarrow> string \<Rightarrow> jv" where
  "unwrap_message parse msg =
     (case match_api_error msg of
        None \<Rightarrow> JStr msg
      | Some g \<Rightarrow>
          if g = [] then JStr msg
          else (case and_then (parse g) (\<lambda>apiError. get apiError ''error'') of
                  Inl e \<Rightarrow> JStr msg
                | Inr err \<Rightarrow>
                    if truthy (opt_get err ''message'') then opt_get err ''message'' else JStr msg))"

text \<open>
  The catch block. The template literal that builds the body stands outside the inner
  \<^verbatim>\<open>try\<close>, so a message that cannot be turned into text throws out of the handler.
\<close>

definition catch_block :: "parser \<Rightarrow> exn \<Rightarrow> exn + response" where
  "catch_block parse error =
     and_then (template (unwrap_message parse (message error))) (\<lambda>errorMessage.
     Inr \<lparr>statusCode = 500, headers = CORS_HEADERS,
          body = error_body (''Generation Error: Failed to generate image. '' @ errorMessage)\<rparr>)"

section \<open>The handler of src/netlify/functions/generateImage.js (Imagen, prompt only)\<close>

definition imagen_payload :: "jv \<Rightarrow> jv" where
  "imagen_payload prompt =
     JObj [(''instances'', JArr [JObj [(''prompt'', prompt)]]),
           (''parameters'', JObj [(''sampleCount'', JNum 1), (''aspectRatio'', JStr ''1:1'')])]"

definition json_post :: "string \<Rightarrow> jv \<Rightarrow> request" where
  "json_post apiUrl payload =
     \<lparr>req_url = apiUrl, req_method = ''POST'',
      req_headers = [(''Content-Type'', ''application/json'')], req_body = payload\<rparr>"

definition imagen_url :: "string \<Rightarrow> string" where
  "imagen_url key =
     ''https://generativelanguage.googleapis.com/v1beta/models/imagen-4.0-generate-001:predict?key='' @ key"

text \<open>\<^verbatim>\<open>prediction && prediction.bytesBase64Encoded\<close> with \<^verbatim>\<open>prediction = response.predictions?.[0]\<close>\<close>

definition imagen_extract :: "jv \<Rightarrow> exn + jv" where
  "imagen_extract response =
     and_then (get response ''predictions'') (\<lambda>predictions.
     let prediction = opt_idx0 predictions
     in Inr (if truthy prediction then opt_get prediction ''bytesBase64Encoded'' else prediction))"

text \<open>What the handler does with the value callApiWithBackoff gave.\<close>

definition imagen_respond :: "jv \<Rightarrow> exn + response" where
  "imagen_respond response =
     and_then (imagen_extract response) (\<lambda>base64Data.
     if truthy base64Data then image_response base64Data
     else and_then
            (safety_summary (opt_get (opt_idx0 (opt_get response ''candidates'')) ''safetyRatings''))
            (\<lambda>safetyRating. Inr (no_image_response safetyRating)))"

text \<open>The \<^verbatim>\<open>try\<close> block.\<close>

definition generateImage_try ::
  "parser \<Rightarrow> string \<Rightarrow> event \<Rightarrow> upstream \<Rightarrow> (exn + response) \<times> effect list" where
  "generateImage_try parse key ev fetch =
     (case and_then (parse (rawBody ev)) (\<lambda>parsed. destructure ''JSON.parse(...)'' parsed ''prompt'') of
        Inl e \<Rightarrow> (Inl e, [])
      | Inr prompt \<Rightarrow>
          if \<not> truthy prompt then
            (Inr missing_prompt, [])
          else
            (case callApiWithBackoff parse fetch (json_post (imagen_url key) (imagen_payload prompt)) 3 of
               (Inl e, tr) \<Rightarrow> (Inl e, tr)
             | (Inr response, tr) \<Rightarrow> (imagen_respond response, tr)))"

text \<open>
  The handler. \<open>Inl\<close> in the result is an exception that leaves the handler; the second
  component is what the invocation did on the network.
\<close>

definition generateImage_handler ::
  "parser \<Rightarrow> string option \<Rightarrow> event \<Rightarrow> upstream \<Rightarrow> (exn + response) \<times> effect list" where
  "generateImage_handler parse API_KEY ev fetch =
     (if httpMethod ev = ''OPTIONS'' then
        (Inr preflight, [])
      else if httpMethod ev \<noteq> ''POST'' then
        (Inr method_not_allowed, [])
      else
        (case API_KEY of
           None \<Rightarrow> (Inr key_missing, [])
         | Some key \<Rightarrow>
             if key = [] then
               (Inr key_missing, [])
             else
               (case generateImage_try parse key ev fetch of
                  (Inl error, tr) \<Rightarrow> (catch_block parse error, tr)
                | (Inr r, tr) \<Rightarrow> (Inr r, tr))))"

section \<open>The handler of src/unnamed/part_001 (multi-modal: prompt and logo, with callApiWithBackoff)\<close>

text \<open>
  \<^verbatim>\<open>let rawBase64Data = logoData.data;
  if (rawBase64Data.includes(',')) { rawBase64Data = rawBase64Data.split(',')[1]; }\<close>
  A string and an array both have \<^verbatim>\<open>includes\<close>; only a string has \<^verbatim>\<open>split\<close>.
\<close>

fun strip_data_uri :: "jv \<Rightarrow> exn + jv" where
  "strip_data_uri (JStr d) =
     (if CHR '','' \<in> set d then
        (case split_on (CHR '','') d of
           first # second # rest \<Rightarrow> Inr (JStr second)
         | _ \<Rightarrow> Inr JUndef)
      else Inr (JStr d))"
| "strip_data_uri (JArr xs) =
     (if JStr '','' \<in> set xs then Inl (not_a_function ''rawBase64Data.split'') else Inr (JArr xs))"
| "strip_data_uri JUndef = Inl (cannot_read JUndef ''includes'')"
| "strip_data_uri JNull = Inl (cannot_read JNull ''includes'')"
| "strip_data_uri v = Inl (not_a_function ''rawBase64Data.includes'')"

definition rawBase64Data :: "jv \<Rightarrow> exn + jv" where
  "rawBase64Data logoData = and_then (get logoData ''data'') strip_data_uri"

definition gemini_payload :: "jv \<Rightarrow> jv \<Rightarrow> jv \<Rightarrow> jv" where
  "gemini_payload prompt mimeType data =
     JObj [(''contents'',
            JArr [JObj [(''parts'',
                         JArr [JObj [(''text'', prompt)],
                               JObj [(''inlineData'',
                                      JObj [(''mimeType'', mimeType), (''data'', data)])]])]]),
           (''generationConfig'',
            JObj [(''responseModalities'', JArr [JStr ''TEXT'', JStr ''IMAGE''])])]"

definition gemini_url :: "string \<Rightarrow> string" where
  "gemini_url key =
     ''https://generativelanguage.googleapis.com/v1beta/models/gemini-2.5-flash-image-preview:generateContent?key='' @ key"

text \<open>\<^verbatim>\<open>parts?.find(p => p.inlineData)\<close>\<close>

fun find_inline :: "jv list \<Rightarrow> exn + jv" where
  "find_inline [] = Inr JUndef"
| "find_inline (p # ps) =
     and_then (get p ''inlineData'') (\<lambda>d. if truthy d then Inr p else find_inline ps)"

fun find_part :: "jv \<Rightarrow> exn + jv" where
  "find_part JUndef = Inr JUndef"
| "find_part JNull = Inr JUndef"
| "find_part (JArr ps) = find_inline ps"
| "find_part v = Inl (not_a_function ''parts.find'')"

text \<open>\<^verbatim>\<open>response?.candidates?.[0]?.content?.parts?.find(p => p.inlineData)?.inlineData?.data\<close>\<close>

definition gemini_extract :: "jv \<Rightarrow> exn + jv" where
  "gemini_extract response =
     and_then
       (find_part (opt_get (opt_get (opt_idx0 (opt_get response ''candidates'')) ''content'') ''parts''))
       (\<lambda>part. Inr (opt_get (opt_get part ''inlineData'') ''data''))"

definition input_rejected :: response where
  "input_rejected =
     \<lparr>statusCode = 400, headers = CORS_HEADERS,
      body = error_body ''Generation Error: The input or prompt may violate safety guidelines, or the model failed to generate output.''\<rparr>"

definition multimodal_respond :: "jv \<Rightarrow> exn + response" where
  "multimodal_respond response =
     and_then (gemini_extract response) (\<lambda>base64Data.
     if truthy base64Data then image_response base64Data
     else
       and_then (get response ''candidates'') (\<lambda>c.
       let candidates = (if truthy c then c else JArr [])
       in if opt_get candidates ''length'' = JNum 0 then Inr input_rejected
          else and_then (safety_summary (opt_get (idx0 candidates) ''safetyRatings''))
                 (\<lambda>safetyRating. Inr (no_image_response safetyRating))))"

definition multimodal_try ::
  "parser \<Rightarrow> string \<Rightarrow> event \<Rightarrow> upstream \<Rightarrow> (exn + response) \<times> effect list" where
  "multimodal_try parse key ev fetch =
     (case and_then (parse (rawBody ev)) (\<lambda>parsed.
           and_then (destructure ''JSON.parse(...)'' parsed ''prompt'') (\<lambda>prompt.
           Inr (prompt, opt_get parsed ''logoData''))) of
        Inl e \<Rightarrow> (Inl e, [])
      | Inr (prompt, logoData) \<Rightarrow>
          if \<not> truthy prompt then
            (Inr missing_prompt, [])
          else
            (case rawBase64Data logoData of
               Inl e \<Rightarrow> (Inl e, [])
             | Inr data \<Rightarrow>
                 (case callApiWithBackoff parse fetch
                         (json_post (gemini_url key)
                            (gemini_payload prompt (opt_get logoData ''mimeType'') data)) 3 of
                    (Inl e, tr) \<Rightarrow> (Inl e, tr)
                  | (Inr response, tr) \<Rightarrow> (multimodal_respond response, tr))))"

definition multimodal_handler ::
  "parser \<Rightarrow> string option \<Rightarrow> event \<Rightarrow> upstream \<Rightarrow> (exn + response) \<times> effect list" where
  "multimodal_handler parse API_KEY ev fetch =
     (if httpMethod ev = ''OPTIONS'' then
        (Inr preflight, [])
      else if httpMethod ev \<noteq> ''POST'' then
        (Inr method_not_allowed, [])
      else
        (case API_KEY of
           None \<Rightarrow> (Inr key_missing, [])
         | Some key \<Rightarrow>
             if key = [] then
               (Inr key_missing, [])
             else
               (case multimodal_try parse key ev fetch of
                  (Inl error, tr) \<Rightarrow> (catch_block parse error, tr)
                | (Inr r, tr) \<Rightarrow> (Inr r, tr))))"

section \<open>The handler of src/netlify/functions/generate-jersey.js (multi-modal, one call)\<close>

definition ALLOW_ORIGIN :: "(string \<times> string) list" where
  "ALLOW_ORIGIN = [(''Access-Control-Allow-Origin'', ''*'')]"

text \<open>The branch \<^verbatim>\<open>if (!apiResponse.ok)\<close>: the upstream status is passed on with the upstream message.\<close>

definition forward_error :: "parser \<Rightarrow> nat \<Rightarrow> exn + string \<Rightarrow> exn + response" where
  "forward_error parse st rd =
     and_then (and_then rd parse) (\<lambda>errorBody.
     and_then (get errorBody ''error'') (\<lambda>err.
     let m = opt_get err ''message''
     in Inr \<lparr>statusCode = st, headers = ALLOW_ORIGIN,
             body = Json (JObj [(''error'', if truthy m then m else JStr ''Gemini API call failed.'')])\<rparr>))"

definition jersey_respond :: "jv \<Rightarrow> exn + response" where
  "jersey_respond result =
     and_then (gemini_extract result) (\<lambda>base64Data.
     if truthy base64Data then
       Inr \<lparr>statusCode = 200, headers = ALLOW_ORIGIN, body = Json (JObj [(''base64Data'', base64Data)])\<rparr>
     else
       Inr \<lparr>statusCode = 500, headers = ALLOW_ORIGIN,
            body = error_body ''Image generation failed to return data.''\<rparr>)"

definition generate_jersey_try ::
  "parser \<Rightarrow> string \<Rightarrow> event \<Rightarrow> upstream \<Rightarrow> (exn + response) \<times> effect list" where
  "generate_jersey_try parse key ev fetch =
     (case and_then (parse (rawBody ev)) (\<lambda>parsed.
           and_then (destructure ''body'' parsed ''prompt'') (\<lambda>prompt.
           let logoData = opt_get parsed ''logoData''
           in and_then (get logoData ''mimeType'') (\<lambda>mimeType.
              Inr (gemini_payload prompt mimeType (opt_get logoData ''data''))))) of
        Inl e \<Rightarrow> (Inl e, [])
      | Inr payload \<Rightarrow>
          (let req = json_post (gemini_url key) payload
           in (case fetch 0 req of
                 Rejects e \<Rightarrow> Inl e
               | Responds st rd \<Rightarrow>
                   if \<not> ok st then forward_error parse st rd
                   else and_then (and_then rd parse) jersey_respond,
               [Fetch req])))"

definition generate_jersey_handler ::
  "parser \<Rightarrow> string option \<Rightarrow> event \<Rightarrow> upstream \<Rightarrow> (exn + response) \<times> effect list" where
  "generate_jersey_handler parse API_KEY ev fetch =
     (if httpMethod ev = ''OPTIONS'' then
        (Inr preflight, [])
      else
        (case API_KEY of
           None \<Rightarrow> (Inr \<lparr>statusCode = 500, headers = [], body = key_error_body\<rparr>, [])
         | Some key \<Rightarrow>
             if key = [] then (Inr \<lparr>statusCode = 500, headers = [], body = key_error_body\<rparr>, [])
             else if httpMethod ev \<noteq> ''POST'' then
               (Inr \<lparr>statusCode = 405, headers = [], body = error_body ''Method Not Allowed''\<rparr>, [])
             else
               (case generate_jersey_try parse key ev fetch of
                  (Inl error, tr) \<Rightarrow>
                    (Inr \<lparr>statusCode = 500, headers = ALLOW_ORIGIN,
                          body = error_body (''Internal server error: '' @ message error)\<rparr>, tr)
                | (Inr r, tr) \<Rightarrow> (Inr r, tr))))"

section \<open>The Apps Script function generateImage of src/unnamed/part_000\<close>

text \<open>
  The Google Apps Script variant returns the Base64 string or \<open>null\<close>; it has no HTTP
  response. \<^verbatim>\<open>UrlFetchApp.fetch\<close> is called with \<^verbatim>\<open>muteHttpExceptions\<close>, so that every status
  comes back as a response. The parameter \<open>prompt\<close> is a string, as its documentation says.
\<close>

definition MAX_RETRIES :: nat where
  "MAX_RETRIES = 3"

definition script_payload :: "string \<Rightarrow> jv" where
  "script_payload prompt =
     JObj [(''instances'', JArr [JObj [(''prompt'', JStr prompt)]]),
           (''parameters'', JObj [(''sampleCount'', JNum 1), (''outputMimeType'', JStr ''image/png'')])]"

definition script_request :: "string \<Rightarrow> string \<Rightarrow> request" where
  "script_request apiKey prompt =
     \<lparr>req_url = imagen_url apiKey, req_method = ''post'',
      req_headers = [(''Content-Type'', ''application/json'')], req_body = script_payload prompt\<rparr>"

text \<open>
  \<^verbatim>\<open>length > 0\<close>. On a number, a boolean, \<open>null\<close> and \<open>undefined\<close> the comparison is written
  out; on a string, an array or an object (which only an object with an own property
  \<^verbatim>\<open>length\<close> can give here) JavaScript first converts the value to a number, and that
  comparison is the parameter \<open>positive\<close>.
\<close>

fun greater_than_zero :: "(jv \<Rightarrow> bool) \<Rightarrow> jv \<Rightarrow> bool" where
  "greater_than_zero positive (JNum n) = (0 < n)"
| "greater_than_zero positive (JBool b) = b"
| "greater_than_zero positive JNull = False"
| "greater_than_zero positive JUndef = False"
| "greater_than_zero positive v = positive v"

text \<open>
  \<^verbatim>\<open>result.predictions && result.predictions.length > 0 && result.predictions[0].bytesBase64Encoded\<close>
\<close>

definition script_extract :: "(jv \<Rightarrow> bool) \<Rightarrow> jv \<Rightarrow> exn + jv" where
  "script_extract positive result =
     and_then (get result ''predictions'') (\<lambda>predictions.
     if \<not> truthy predictions then Inr predictions
     else if \<not> greater_than_zero positive (opt_get predictions ''length'') then Inr (JBool False)
     else get (idx0 predictions) ''bytesBase64Encoded'')"

text \<open>
  The loop inside the \<^verbatim>\<open>try\<close>; every exception ends in the \<^verbatim>\<open>catch\<close>, which returns
  \<open>null\<close>. A 429 is retried only while \<open>i < MAX_RETRIES - 1\<close>; any other status that is
  not 200 returns \<open>null\<close> at once.
\<close>

function generateImage_from ::
  "parser \<Rightarrow> (jv \<Rightarrow> bool) \<Rightarrow> upstream \<Rightarrow> request \<Rightarrow> nat \<Rightarrow> jv \<times> effect list" where
  "generateImage_from parse positive fetch req i =
     (if i < MAX_RETRIES then
        (case fetch i req of
           Rejects e \<Rightarrow> (JNull, [Fetch req])
         | Responds responseCode rd \<Rightarrow>
             (case rd of
                Inl e \<Rightarrow> (JNull, [Fetch req])
              | Inr responseText \<Rightarrow>
                  if responseCode = 200 then
                    (case and_then (parse responseText) (script_extract positive) of
                       Inl e \<Rightarrow> (JNull, [Fetch req])
                     | Inr base64Image \<Rightarrow>
                         (if truthy base64Image then base64Image else JNull, [Fetch req]))
                  else if responseCode = 429 \<and> i < MAX_RETRIES - 1 then
                    after [Fetch req, Sleep (2 ^ i * 1000)]
                      (generateImage_from parse positive fetch req (i + 1))
                  else (JNull, [Fetch req])))
      else (JNull, []))"
  by pat_completeness auto
termination
  by (relation "measure (\<lambda>(parse, positive, fetch, req, i). MAX_RETRIES - i)") auto

declare generateImage_from.simps [simp del]

definition generateImage ::
  "parser \<Rightarrow> (jv \<Rightarrow> bool) \<Rightarrow> string option \<Rightarrow> string \<Rightarrow> upstream \<Rightarrow> jv \<times> effect list" where
  "generateImage parse positive apiKey prompt fetch =
     (case apiKey of
        None \<Rightarrow> (JNull, [])
      | Some key \<Rightarrow>
          if key = [] then (JNull, [])
          else if prompt = [] then (JNull, [])
          else generateImage_from parse positive fetch (script_request key prompt) 0)"

section \<open>Vocabulary of the properties\<close>

text \<open>The response carries the header \<^verbatim>\<open>Access-Control-Allow-Origin\<close>.\<close>

definition has_allow_origin :: "response \<Rightarrow> bool" where
  "has_allow_origin r = (''Access-Control-Allow-Origin'' \<in> set (map fst (headers r)))"

text \<open>The body is the JSON text of an object with the single property \<^verbatim>\<open>error\<close>.\<close>

definition json_error_body :: "body \<Rightarrow> bool" where
  "json_error_body b = (case b of Json (JObj [(k, v)]) \<Rightarrow> k = ''error'' | _ \<Rightarrow> False)"

text \<open>
  The bodies the two handlers with callApiWithBackoff give a failure: a JSON error object,
  or one of their two plain texts.
\<close>

definition failure_body :: "response \<Rightarrow> bool" where
  "failure_body r =
     (json_error_body (body r)
      \<or> (statusCode r = 405 \<and> body r = Text ''Method Not Allowed'')
      \<or> (statusCode r = 400 \<and> body r = Text ''Missing prompt''))"

section \<open>Sample inputs\<close>

text \<open>
  Concrete inputs for the examples below. \<open>sample_parse\<close> is \<^verbatim>\<open>JSON.parse\<close> on the texts
  the examples use, and throws on every other text.
\<close>

definition empty_object_text :: string where
  \<open>empty_object_text = ''{}''\<close>

definition prompt_only_text :: string where
  \<open>prompt_only_text = ''{"prompt":"a red jersey"}''\<close>

definition with_logo_text :: string where
  \<open>with_logo_text =
     ''{"prompt":"a red jersey","logoData":{"mimeType":"image/png","data":"data:image/png;base64,AAAA"}}''\<close>

definition two_commas_text :: string where
  \<open>two_commas_text =
     ''{"prompt":"a red jersey","logoData":{"mimeType":"image/png","data":"data:image/png;base64,AAAA,BBBB"}}''\<close>

definition logo_only_text :: string where
  \<open>logo_only_text = ''{"logoData":{"mimeType":"image/png","data":"AAAA"}}''\<close>

definition no_candidates_text :: string where
  \<open>no_candidates_text = ''{"candidates":[]}''\<close>

definition filtered_text :: string where
  \<open>filtered_text =
     ''{"candidates":[{"finishReason":"SAFETY","safetyRatings":[{"category":"HARM_CATEGORY_HATE_SPEECH","probability":"LOW"},{"category":"HARM_CATEGORY_HARASSMENT","probability":"HIGH"}]}]}''\<close>

definition hostile_text :: string where
  \<open>hostile_text = ''{"error":{"message":{"toString":1}}}''\<close>

definition empty_image_text :: string where
  \<open>empty_image_text = ''{"predictions":[{"bytesBase64Encoded":""}]}''\<close>

definition empty_inline_text :: string where
  \<open>empty_inline_text =
     ''{"candidates":[{"content":{"parts":[{"inlineData":{"mimeType":"image/png","data":""}}]}}]}''\<close>

definition image_text :: string where
  \<open>image_text =
     ''{"candidates":[{"content":{"parts":[{"inlineData":{"mimeType":"image/png","data":"QUJD"}}]}}]}''\<close>

definition logo_value :: "string \<Rightarrow> jv" where
  "logo_value data = JObj [(''mimeType'', JStr ''image/png''), (''data'', JStr data)]"

definition filtered_value :: jv where
  "filtered_value =
     JObj [(''candidates'',
            JArr [JObj [(''finishReason'', JStr ''SAFETY''),
                        (''safetyRatings'',
                         JArr [JObj [(''category'', JStr ''HARM_CATEGORY_HATE_SPEECH''),
                                     (''probability'', JStr ''LOW'')],
                               JObj [(''category'', JStr ''HARM_CATEGORY_HARASSMENT''),
                                     (''probability'', JStr ''HIGH'')]])]])]"

definition empty_inline_value :: jv where
  "empty_inline_value =
     JObj [(''candidates'',
            JArr [JObj [(''content'',
                         JObj [(''parts'', JArr [JObj [(''inlineData'', logo_value [])]])])]])]"

definition image_value :: jv where
  "image_value =
     JObj [(''candidates'',
            JArr [JObj [(''content'',
                         JObj [(''parts'', JArr [JObj [(''inlineData'', logo_value ''QUJD'')]])])]])]"

definition sample_parse :: parser where
  "sample_parse s =
     (if s = empty_object_text then Inr (JObj [])
      else if s = prompt_only_text then Inr (JObj [(''prompt'', JStr ''a red jersey'')])
      else if s = with_logo_text then
        Inr (JObj [(''prompt'', JStr ''a red jersey''),
                   (''logoData'', logo_value ''data:image/png;base64,AAAA'')])
      else if s = two_commas_text then
        Inr (JObj [(''prompt'', JStr ''a red jersey''),
                   (''logoData'', logo_value ''data:image/png;base64,AAAA,BBBB'')])
      else if s = logo_only_text then Inr (JObj [(''logoData'', logo_value ''AAAA'')])
      else if s = no_candidates_text then Inr (JObj [(''candidates'', JArr [])])
      else if s = filtered_text then Inr filtered_value
      else if s = hostile_text then
        Inr (JObj [(''error'', JObj [(''message'', JObj [(''toString'', JNum 1)])])])
      else if s = empty_image_text then
        Inr (JObj [(''predictions'', JArr [JObj [(''bytesBase64Encoded'', JStr [])]])])
      else if s = empty_inline_text then Inr empty_inline_value
      else if s = image_text then Inr image_value
      else Inl (SyntaxError ''Unexpected token''))"

definition post :: "string \<Rightarrow> event" where
  "post text = \<lparr>httpMethod = ''POST'', rawBody = text\<rparr>"

definition get_request :: event where
  "get_request = \<lparr>httpMethod = ''GET'', rawBody = []\<rparr>"

definition sample_request :: request where
  "sample_request = json_post (imagen_url ''secret'') (imagen_payload (JStr ''a red jersey''))"

definition logo_request :: "string \<Rightarrow> request" where
  "logo_request data =
     json_post (gemini_url ''secret'')
       (gemini_payload (JStr ''a red jersey'') (JStr ''image/png'') (JStr data))"

text \<open>An upstream that gives every call the same status and body.\<close>

definition answers :: "nat \<Rightarrow> string \<Rightarrow> upstream" where
  "answers st text i req = Responds st (Inr text)"

definition always_500 :: upstream where
  "always_500 = answers 500 ''boom''"

definition always_429 :: upstream where
  "always_429 = answers 429 ''slow down''"

text \<open>An upstream that answers 500 to the first call and 200 with an empty object afterwards.\<close>

definition recovers :: upstream where
  "recovers i req =
     (if i = 0 then Responds 500 (Inr ''boom'') else Responds 200 (Inr empty_object_text))"

text \<open>An upstream whose two endpoints answer 200 with an image field that is the empty string.\<close>

definition empty_images :: upstream where
  "empty_images i req =
     (if req_url req = imagen_url ''secret'' then Responds 200 (Inr empty_image_text)
      else Responds 200 (Inr empty_inline_text))"

section \<open>Evaluation and basic facts\<close>

lemmas sample_texts =
  empty_object_text_def prompt_only_text_def with_logo_text_def two_commas_text_def
  logo_only_text_def no_candidates_text_def filtered_text_def hostile_text_def
  empty_image_text_def empty_inline_text_def image_text_def

lemmas sample_defs =
  sample_parse_def sample_texts post_def get_request_def sample_request_def logo_request_def
  answers_def always_500_def always_429_def recovers_def empty_images_def logo_value_def
  filtered_value_def empty_inline_value_def image_value_def

lemmas handler_defs =
  generateImage_handler_def generateImage_try_def multimodal_handler_def multimodal_try_def
  generate_jersey_handler_def generate_jersey_try_def and_then_def destructure_def
  callApiWithBackoff_def callApiWithBackoff_from.simps after_def ok_def catch_block_def
  unwrap_message_def template_def imagen_respond_def imagen_extract_def multimodal_respond_def
  gemini_extract_def jersey_respond_def forward_error_def rawBase64Data_def opt_get_def
  opt_idx0_def cannot_read_def not_a_function_def match_here_def is_digit_def
  image_response_def no_image_response_def filtered_message_def rating_text_def
  input_rejected_def missing_prompt_def method_not_allowed_def key_missing_def preflight_def
  json_post_def

lemma show_nat_500: "show_nat 500 = ''500''"
  by (simp add: show_nat.simps)

lemma get_not_nullish: "get v k = Inr w \<Longrightarrow> \<not> nullish v"
  by (cases v) auto

lemma opt_get_get: "get v k = Inr w \<Longrightarrow> opt_get v k = w"
  by (simp add: opt_get_def get_not_nullish)

lemma json_error_body_error_body [simp]: "json_error_body (error_body msg)"
  by (simp add: json_error_body_def error_body_def)

subsection \<open>Strings\<close>

lemma is_prefix_iff: "is_prefix t s \<longleftrightarrow> (\<exists>q. s = t @ q)"
  by (induction t s rule: is_prefix.induct) auto

lemma str_includes_iff: "str_includes s t \<longleftrightarrow> (\<exists>p q. s = p @ t @ q)"
proof (induction s)
  case Nil
  then show ?case by simp
next
  case (Cons c s)
  show ?case
  proof
    assume "str_includes (c # s) t"
    then consider "is_prefix t (c # s)" | "str_includes s t" by auto
    then show "\<exists>p q. c # s = p @ t @ q"
    proof cases
      case 1
      then obtain q where "c # s = t @ q" by (auto simp: is_prefix_iff)
      then have "c # s = [] @ t @ q" by simp
      then show ?thesis by blast
    next
      case 2
      with Cons obtain p q where "s = p @ t @ q" by blast
      then have "c # s = (c # p) @ t @ q" by simp
      then show ?thesis by blast
    qed
  next
    assume "\<exists>p q. c # s = p @ t @ q"
    then obtain p q where pq: "c # s = p @ t @ q" by blast
    show "str_includes (c # s) t"
    proof (cases p)
      case Nil
      with pq have "is_prefix t (c # s)" by (auto simp: is_prefix_iff)
      then show ?thesis by simp
    next
      case (Cons d p')
      with pq have "s = p' @ t @ q" by simp
      with Cons.IH show ?thesis by auto
    qed
  qed
qed

lemma str_includes_append: "str_includes (p @ t @ q) t"
  by (auto simp: str_includes_iff)

lemma str_includes_trans:
  assumes "str_includes s t" and "str_includes t u"
  shows "str_includes s u"
proof -
  from assms obtain p q p' q' where "s = p @ t @ q" and "t = p' @ u @ q'"
    by (auto simp: str_includes_iff)
  then have "s = (p @ p') @ u @ (q' @ q)" by simp
  then show ?thesis unfolding str_includes_iff by blast
qed

lemma join_with_includes: "x \<in> set xs \<Longrightarrow> str_includes (join_with sep xs) x"
proof (induction sep xs rule: join_with.induct)
  case (1 sep)
  then show ?case by simp
next
  case (2 sep y)
  then have "join_with sep [y] = [] @ x @ []" by simp
  then show ?case unfolding str_includes_iff by blast
next
  case (3 sep y z zs)
  show ?case
  proof (cases "x = y")
    case True
    then have "join_with sep (y # z # zs) = [] @ x @ (sep @ join_with sep (z # zs))" by simp
    then show ?thesis unfolding str_includes_iff by blast
  next
    case False
    with 3 have "str_includes (join_with sep (z # zs)) x" by simp
    then obtain p q where "join_with sep (z # zs) = p @ x @ q" by (auto simp: str_includes_iff)
    then have "join_with sep (y # z # zs) = (y @ sep @ p) @ x @ q" by simp
    then show ?thesis unfolding str_includes_iff by blast
  qed
qed

lemma split_on_nonempty: "split_on c s \<noteq> []"
  by (induction s) (auto split: list.splits)

lemma split_on_no_sep: "c \<notin> set s \<Longrightarrow> split_on c s = [s]"
  by (induction s) auto

lemma split_on_first: "c \<notin> set a \<Longrightarrow> split_on c (a @ c # b) = a # split_on c b"
  by (induction a) auto

lemma hd_split_on: "hd (split_on c b) = takeWhile (\<lambda>x. x \<noteq> c) b"
  by (induction b) (auto simp: split_on_nonempty split: list.splits)

subsection \<open>Steps that may throw\<close>

lemma map_throw_ok:
  "\<forall>x \<in> set xs. f x = Inr (g x) \<Longrightarrow> map_throw f xs = Inr (map g xs)"
  by (induction xs) (simp_all add: and_then_def)

lemma map_throw_error:
  "map_throw f xs = Inl e \<Longrightarrow> \<exists>x \<in> set xs. f x = Inl e"
  by (induction xs) (auto simp: and_then_def split: sum.splits)

lemma rating_text_ok:
  assumes "get r ''category'' = Inr (JStr c)" and "convertible (opt_get r ''probability'')"
  shows "rating_text r
         = Inr (last (split_on (CHR ''_'') c) @ '': '' @ to_string (opt_get r ''probability''))"
  using assms by (simp add: rating_text_def and_then_def template_def)

text \<open>
  No error thrown while the ratings are summarised has a message of the form the catch
  block unwraps.
\<close>

lemma rating_text_error:
  assumes "rating_text r = Inl e"
  shows "match_api_error (message e) = None"
proof (cases "get r ''category''")
  case (Inl e')
  then have "nullish r" by (cases r) auto
  with Inl assms show ?thesis
    by (cases r) (auto simp: rating_text_def and_then_def cannot_read_def match_here_def)
next
  case (Inr c)
  show ?thesis
  proof (cases "category_tail c")
    case (Inl e')
    with Inr assms have "e = e'" by (simp add: rating_text_def and_then_def)
    with Inl show ?thesis
      by (cases c) (auto simp: cannot_read_def not_a_function_def match_here_def)
  next
    case tail: (Inr t)
    with Inr assms show ?thesis
      by (auto simp: rating_text_def and_then_def template_def match_here_def split: if_splits)
  qed
qed

lemma safety_summary_error:
  assumes "safety_summary v = Inl e"
  shows "match_api_error (message e) = None"
proof (cases v)
  case (JArr rs)
  with assms have "map_throw rating_text rs = Inl e"
    by (simp add: and_then_def split: sum.splits)
  then obtain r where "rating_text r = Inl e" by (auto dest: map_throw_error)
  then show ?thesis by (rule rating_text_error)
qed (use assms in \<open>auto simp: not_a_function_def match_here_def\<close>)

lemma no_match_cannot_read_data:
  "nullish v \<Longrightarrow> match_api_error (message (cannot_read v ''data'')) = None"
  by (cases v) (simp_all add: cannot_read_def match_here_def)

subsection \<open>The catch block and the shape of the responses\<close>

lemma catch_block_plain:
  assumes "match_api_error (message e) = None"
  shows "catch_block parse e
     = Inr \<lparr>statusCode = 500, headers = CORS_HEADERS,
            body = error_body (''Generation Error: Failed to generate image. '' @ message e)\<rparr>"
  using assms by (simp add: catch_block_def unwrap_message_def template_def and_then_def)

lemma catch_block_shape:
  "catch_block parse e = Inr r
   \<Longrightarrow> statusCode r = 500 \<and> headers r = CORS_HEADERS \<and> json_error_body (body r)"
  by (auto simp: catch_block_def and_then_def split: sum.splits)

lemma image_response_shape:
  "image_response v = Inr r \<Longrightarrow> statusCode r = 200 \<and> headers r = CORS_HEADERS"
  by (auto simp: image_response_def and_then_def split: sum.splits)

lemma no_image_response_shape:
  "statusCode (no_image_response s) = 500 \<and> headers (no_image_response s) = CORS_HEADERS
   \<and> json_error_body (body (no_image_response s))"
  by (simp add: no_image_response_def)

lemma imagen_respond_shape:
  assumes "imagen_respond response = Inr r"
  shows "headers r = CORS_HEADERS
       \<and> (statusCode r = 200 \<or> statusCode r = 500 \<and> json_error_body (body r))"
  using assms image_response_shape [of _ r] no_image_response_shape
  by (auto simp: imagen_respond_def and_then_def split: sum.splits if_splits)

lemma multimodal_respond_shape:
  assumes "multimodal_respond response = Inr r"
  shows "headers r = CORS_HEADERS \<and> (statusCode r = 200 \<or> json_error_body (body r))"
  using assms image_response_shape [of _ r] no_image_response_shape
  by (auto simp: multimodal_respond_def and_then_def input_rejected_def Let_def
      split: sum.splits if_splits)

lemma generateImage_try_shape:
  assumes "fst (generateImage_try parse key ev fetch) = Inr r"
  shows "headers r = CORS_HEADERS \<and> (statusCode r = 200 \<or> failure_body r)"
  using assms imagen_respond_shape [of _ r]
  by (auto simp: generateImage_try_def failure_body_def missing_prompt_def
      split: sum.splits if_splits prod.splits)

lemma multimodal_try_shape:
  assumes "fst (multimodal_try parse key ev fetch) = Inr r"
  shows "headers r = CORS_HEADERS \<and> (statusCode r = 200 \<or> failure_body r)"
  using assms multimodal_respond_shape [of _ r]
  by (auto simp: multimodal_try_def failure_body_def missing_prompt_def
      split: sum.splits if_splits prod.splits)

lemma generateImage_handler_shape:
  assumes "fst (generateImage_handler parse API_KEY ev fetch) = Inr r"
  shows "headers r = CORS_HEADERS \<and> (statusCode r = 200 \<or> failure_body r)"
proof (cases "httpMethod ev = ''OPTIONS'' \<or> httpMethod ev \<noteq> ''POST'' \<or> \<not> configured API_KEY")
  case True
  with assms show ?thesis
    by (cases API_KEY)
      (auto simp: generateImage_handler_def failure_body_def key_error_body_def preflight_def
        method_not_allowed_def key_missing_def split: if_splits)
next
  case False
  then obtain key where key: "API_KEY = Some key" "key \<noteq> []" by (cases API_KEY) auto
  show ?thesis
  proof (cases "fst (generateImage_try parse key ev fetch)")
    case (Inl e)
    with assms False key have "catch_block parse e = Inr r"
      by (simp add: generateImage_handler_def split: prod.splits)
    from catch_block_shape [OF this] show ?thesis by (simp add: failure_body_def)
  next
    case (Inr r')
    with assms False key have "r' = r"
      by (simp add: generateImage_handler_def split: prod.splits)
    with Inr generateImage_try_shape show ?thesis by blast
  qed
qed

lemma multimodal_handler_shape:
  assumes "fst (multimodal_handler parse API_KEY ev fetch) = Inr r"
  shows "headers r = CORS_HEADERS \<and> (statusCode r = 200 \<or> failure_body r)"
proof (cases "httpMethod ev = ''OPTIONS'' \<or> httpMethod ev \<noteq> ''POST'' \<or> \<not> configured API_KEY")
  case True
  with assms show ?thesis
    by (cases API_KEY)
      (auto simp: multimodal_handler_def failure_body_def key_error_body_def preflight_def
        method_not_allowed_def key_missing_def split: if_splits)
next
  case False
  then obtain key where key: "API_KEY = Some key" "key \<noteq> []" by (cases API_KEY) auto
  show ?thesis
  proof (cases "fst (multimodal_try parse key ev fetch)")
    case (Inl e)
    with assms False key have "catch_block parse e = Inr r"
      by (simp add: multimodal_handler_def split: prod.splits)
    from catch_block_shape [OF this] show ?thesis by (simp add: failure_body_def)
  next
    case (Inr r')
    with assms False key have "r' = r"
      by (simp add: multimodal_handler_def split: prod.splits)
    with Inr multimodal_try_shape show ?thesis by blast
  qed
qed

text \<open>
  The catch block either builds its response or throws the TypeError of the template
  literal; nothing else leaves the two handlers that use it.
\<close>

lemma catch_block_outcome:
  "(\<exists>r. catch_block parse e = Inr r)
   \<or> catch_block parse e = Inl (TypeError ''Cannot convert object to primitive value'')"
  by (simp add: catch_block_def and_then_def template_def)

lemma generateImage_handler_outcome:
  "(\<exists>r. fst (generateImage_handler parse API_KEY ev fetch) = Inr r)
   \<or> fst (generateImage_handler parse API_KEY ev fetch)
       = Inl (TypeError ''Cannot convert object to primitive value'')"
proof (cases "httpMethod ev = ''OPTIONS'' \<or> httpMethod ev \<noteq> ''POST'' \<or> \<not> configured API_KEY")
  case True
  then show ?thesis
    by (cases API_KEY) (auto simp: generateImage_handler_def)
next
  case False
  then obtain key where key: "API_KEY = Some key" "key \<noteq> []" by (cases API_KEY) auto
  show ?thesis
  proof (cases "fst (generateImage_try parse key ev fetch)")
    case (Inl e)
    with False key have "fst (generateImage_handler parse API_KEY ev fetch) = catch_block parse e"
      by (auto simp: generateImage_handler_def split: prod.splits)
    with catch_block_outcome [of parse e] show ?thesis by auto
  next
    case (Inr r')
    with False key show ?thesis
      by (auto simp: generateImage_handler_def split: prod.splits)
  qed
qed

lemma multimodal_handler_outcome:
  "(\<exists>r. fst (multimodal_handler parse API_KEY ev fetch) = Inr r)
   \<or> fst (multimodal_handler parse API_KEY ev fetch)
       = Inl (TypeError ''Cannot convert object to primitive value'')"
proof (cases "httpMethod ev = ''OPTIONS'' \<or> httpMethod ev \<noteq> ''POST'' \<or> \<not> configured API_KEY")
  case True
  then show ?thesis
    by (cases API_KEY) (auto simp: multimodal_handler_def)
next
  case False
  then obtain key where key: "API_KEY = Some key" "key \<noteq> []" by (cases API_KEY) auto
  show ?thesis
  proof (cases "fst (multimodal_try parse key ev fetch)")
    case (Inl e)
    with False key have "fst (multimodal_handler parse API_KEY ev fetch) = catch_block parse e"
      by (auto simp: multimodal_handler_def split: prod.splits)
    with catch_block_outcome [of parse e] show ?thesis by auto
  next
    case (Inr r')
    with False key show ?thesis
      by (auto simp: multimodal_handler_def split: prod.splits)
  qed
qed

lemma forward_error_shape:
  "forward_error parse st rd = Inr r \<Longrightarrow> statusCode r = st \<and> json_error_body (body r)"
  by (auto simp: forward_error_def and_then_def Let_def json_error_body_def split: sum.splits)

lemma jersey_respond_shape:
  "jersey_respond result = Inr r \<Longrightarrow> statusCode r = 200 \<or> json_error_body (body r)"
  by (auto simp: jersey_respond_def and_then_def split: sum.splits if_splits)

lemma generate_jersey_try_shape:
  assumes "fst (generate_jersey_try parse key ev fetch) = Inr r"
  shows "statusCode r \<noteq> 200 \<longrightarrow> json_error_body (body r)"
  using assms forward_error_shape [of parse _ _ r] jersey_respond_shape [of _ r]
  by (auto simp: generate_jersey_try_def Let_def and_then_def ok_def
      split: sum.splits if_splits fetch_result.splits)

lemma generate_jersey_handler_responds:
  "\<exists>r. fst (generate_jersey_handler parse API_KEY ev fetch) = Inr r
       \<and> (statusCode r \<noteq> 200 \<longrightarrow> json_error_body (body r))"
proof (cases "httpMethod ev = ''OPTIONS'' \<or> httpMethod ev \<noteq> ''POST'' \<or> \<not> configured API_KEY")
  case True
  then show ?thesis
    by (cases API_KEY) (auto simp: generate_jersey_handler_def key_error_body_def preflight_def)
next
  case False
  then obtain key where key: "API_KEY = Some key" "key \<noteq> []" by (cases API_KEY) auto
  show ?thesis
  proof (cases "fst (generate_jersey_try parse key ev fetch)")
    case (Inl e)
    with False key show ?thesis
      by (auto simp: generate_jersey_handler_def split: prod.splits)
  next
    case (Inr r')
    with False key generate_jersey_try_shape [OF Inr] show ?thesis
      by (auto simp: generate_jersey_handler_def split: prod.splits)
  qed
qed

text \<open>Every response of the two handlers with callApiWithBackoff carries the CORS headers.\<close>

lemma backoff_handlers_allow_origin:
  "(fst (generateImage_handler parse API_KEY ev fetch) = Inr r \<longrightarrow> has_allow_origin r)
   \<and> (fst (multimodal_handler parse API_KEY ev fetch) = Inr r \<longrightarrow> has_allow_origin r)"
  using generateImage_handler_shape [of parse API_KEY ev fetch r]
    multimodal_handler_shape [of parse API_KEY ev fetch r]
  by (auto simp: has_allow_origin_def CORS_HEADERS_def)

subsection \<open>When the upstream answer reaches the handler\<close>

lemma generateImage_reaches:
  assumes "httpMethod ev = ''POST''" and "key \<noteq> []"
    and "parse (rawBody ev) = Inr parsed" and "get parsed ''prompt'' = Inr prompt" and "truthy prompt"
    and "callApiWithBackoff parse fetch (json_post (imagen_url key) (imagen_payload prompt)) 3
         = (Inr response, tr)"
  shows "generateImage_handler parse (Some key) ev fetch
         = (case imagen_respond response of Inl e \<Rightarrow> catch_block parse e | Inr r \<Rightarrow> Inr r, tr)"
  using assms get_not_nullish [OF assms(4)]
  by (simp add: generateImage_handler_def generateImage_try_def and_then_def destructure_def
      split: sum.splits)

lemma multimodal_reaches:
  assumes "httpMethod ev = ''POST''" and "key \<noteq> []"
    and "parse (rawBody ev) = Inr parsed" and "get parsed ''prompt'' = Inr prompt" and "truthy prompt"
    and "rawBase64Data (opt_get parsed ''logoData'') = Inr data"
    and "callApiWithBackoff parse fetch
           (json_post (gemini_url key)
              (gemini_payload prompt (opt_get (opt_get parsed ''logoData'') ''mimeType'') data)) 3
         = (Inr response, tr)"
  shows "multimodal_handler parse (Some key) ev fetch
         = (case multimodal_respond response of Inl e \<Rightarrow> catch_block parse e | Inr r \<Rightarrow> Inr r, tr)"
  using assms get_not_nullish [OF assms(4)]
  by (simp add: multimodal_handler_def multimodal_try_def and_then_def destructure_def
      split: sum.splits)

section \<open>Properties of callApiWithBackoff\<close>

lemma loop_last_status:
  assumes "i < retries"
    and "\<forall>j. i \<le> j \<and> j < retries - 1 \<longrightarrow> (\<forall>r. attempt parse (fetch j req) \<noteq> Returns r)"
    and "fetch (retries - 1) req = Responds st (Inr errorBody)" and "st \<noteq> 429" and "\<not> ok st"
  shows "fst (callApiWithBackoff_from parse fetch req retries i)
           = Inl (Error (''External API Error '' @ show_nat st @ '': '' @ errorBody))
         \<and> calls (snd (callApiWithBackoff_from parse fetch req retries i)) = retries - i"
  using assms
proof (induction parse fetch req retries i rule: callApiWithBackoff_from.induct)
  case (1 parse fetch req retries i)
  show ?case
  proof (cases "i = retries - 1")
    case True
    with 1(3,5,6,7) show ?thesis
      by (subst (1 2) callApiWithBackoff_from.simps) (simp add: calls_def)
  next
    case False
    with 1(3) have lt: "i + 1 < retries" by simp
    from 1(4) False 1(3) have nr: "\<forall>r. attempt parse (fetch i req) \<noteq> Returns r" by simp
    have rest: "\<forall>j. i + 1 \<le> j \<and> j < retries - 1 \<longrightarrow> (\<forall>r. attempt parse (fetch j req) \<noteq> Returns r)"
      using 1(4) by simp
    show ?thesis
    proof (cases "attempt parse (fetch i req)")
      case (Returns r)
      with nr show ?thesis by simp
    next
      case RateLimited
      from 1(1) [OF 1(3) RateLimited lt rest 1(5) 1(6) 1(7)] RateLimited 1(3) lt show ?thesis
        by (subst (1 2) callApiWithBackoff_from.simps) (simp add: after_def calls_def)
    next
      case (Throws e)
      from 1(2) [OF 1(3) Throws False lt rest 1(5) 1(6) 1(7)] Throws 1(3) lt False show ?thesis
        by (subst (1 2) callApiWithBackoff_from.simps) (simp add: after_def calls_def)
    qed
  qed
qed

text \<open>When every attempt is answered by 429 the loop runs out and the function returns \<open>undefined\<close>.\<close>

lemma loop_all_429:
  assumes "\<forall>j. i \<le> j \<and> j < retries \<longrightarrow> (\<exists>rd. fetch j req = Responds 429 rd)"
  shows "fst (callApiWithBackoff_from parse fetch req retries i) = Inr JUndef
       \<and> calls (snd (callApiWithBackoff_from parse fetch req retries i)) = retries - i"
  using assms
proof (induction parse fetch req retries i rule: callApiWithBackoff_from.induct)
  case (1 parse fetch req retries i)
  show ?case
  proof (cases "i < retries")
    case False
    then show ?thesis by (subst (1 2) callApiWithBackoff_from.simps) (simp add: calls_def)
  next
    case True
    with 1(3) obtain rd where rd: "fetch i req = Responds 429 rd" by auto
    then have rl: "attempt parse (fetch i req) = RateLimited" by simp
    have "\<forall>j. i + 1 \<le> j \<and> j < retries \<longrightarrow> (\<exists>rd. fetch j req = Responds 429 rd)"
      using 1(3) by simp
    from 1(1) [OF True rl this] True rl show ?thesis
      by (subst (1 2) callApiWithBackoff_from.simps) (simp add: after_def calls_def)
  qed
qed

text \<open>The network calls of one run all send the same request, and the first effect is a call.\<close>

lemma loop_trace:
  "set (snd (callApiWithBackoff_from parse fetch req retries i)) \<subseteq> insert (Fetch req) (range Sleep)"
proof (induction parse fetch req retries i rule: callApiWithBackoff_from.induct)
  case (1 parse fetch req retries i)
  show ?case
  proof (cases "i < retries")
    case False
    then show ?thesis by (subst callApiWithBackoff_from.simps) simp
  next
    case True
    show ?thesis
    proof (cases "attempt parse (fetch i req)")
      case (Returns r)
      with True show ?thesis by (subst callApiWithBackoff_from.simps) simp
    next
      case RateLimited
      with True 1(1) show ?thesis
        by (subst callApiWithBackoff_from.simps) (auto simp: after_def)
    next
      case (Throws e)
      with True 1(2) show ?thesis
        by (subst callApiWithBackoff_from.simps) (auto simp: after_def)
    qed
  qed
qed

lemma loop_first:
  "i < retries \<Longrightarrow> \<exists>tr. snd (callApiWithBackoff_from parse fetch req retries i) = Fetch req # tr"
  by (subst callApiWithBackoff_from.simps) (simp add: after_def split: outcome.splits)

lemma call_trace:
  assumes "0 < retries"
  shows "\<exists>tr. snd (callApiWithBackoff parse fetch req retries) = Fetch req # tr
            \<and> (\<forall>e \<in> set tr. is_fetch e \<longrightarrow> e = Fetch req)"
proof -
  from loop_first [OF assms] obtain tr
    where tr: "snd (callApiWithBackoff_from parse fetch req retries 0) = Fetch req # tr"
    by blast
  from loop_trace [of parse fetch req retries 0] tr
  have "set tr \<subseteq> insert (Fetch req) (range Sleep)" by simp
  then have "\<forall>e \<in> set tr. is_fetch e \<longrightarrow> e = Fetch req" by auto
  with tr show ?thesis by (simp add: callApiWithBackoff_def)
qed

text \<open>
  A status error on an attempt that is not the last: the next attempt follows with no wait
  in between (the trace has the call and then whatever the rest of the loop does).
\<close>

lemma status_error_retried_without_wait:
  assumes "i + 1 < retries"
    and "fetch i req = Responds st (Inr errorBody)" and "st \<noteq> 429" and "\<not> ok st"
  shows "callApiWithBackoff_from parse fetch req retries i
         = after [Fetch req] (callApiWithBackoff_from parse fetch req retries (i + 1))"
proof -
  from assms(1) have "i < retries" and "i \<noteq> retries - 1" by simp_all
  with assms(2,3,4) show ?thesis
    by (subst callApiWithBackoff_from.simps [of parse fetch req retries i]) simp
qed

text \<open>
  C1, as the code has it. A status that is neither 429 nor 2xx makes callApiWithBackoff
  fail with the error carrying the status code and the body text only when it is the
  answer to the last attempt, the one with index \<open>retries - 1\<close>. When the attempts before
  it were answered by 429, by a rejection or by another such status, the last attempt is
  reached, and the failure then comes after \<open>retries\<close> network calls: an earlier error is
  caught inside the loop and the next attempt follows.
\<close>

theorem status_error_fails_on_last_attempt:
  assumes "0 < retries"
    and "\<forall>j < retries - 1. \<forall>r. attempt parse (fetch j req) \<noteq> Returns r"
    and "fetch (retries - 1) req = Responds st (Inr errorBody)" and "st \<noteq> 429" and "\<not> ok st"
  shows "fst (callApiWithBackoff parse fetch req retries)
           = Inl (Error (''External API Error '' @ show_nat st @ '': '' @ errorBody))
         \<and> calls (snd (callApiWithBackoff parse fetch req retries)) = retries"
  using loop_last_status [of 0 retries parse fetch req st errorBody] assms
  by (simp add: callApiWithBackoff_def)

text \<open>C1, an instance: three answers with status 500 cost three network calls, then the error.\<close>

theorem status_error_fails_on_last_attempt_witness:
  "always_500 (3 - 1) sample_request = Responds 500 (Inr ''boom'')
   \<and> fst (callApiWithBackoff sample_parse always_500 sample_request 3)
       = Inl (Error ''External API Error 500: boom'')
   \<and> calls (snd (callApiWithBackoff sample_parse always_500 sample_request 3)) = 3"
  using status_error_fails_on_last_attempt [of 3 sample_parse always_500 sample_request 500 "''boom''"]
  by (simp add: always_500_def answers_def ok_def show_nat_500)

text \<open>
  C1 as stated fails: the first attempt is answered by status 500, the caller does not
  fail, makes a second network call, and returns what that call gave.
\<close>

theorem status_error_is_retried_counterexample:
  "recovers 0 sample_request = Responds 500 (Inr ''boom'')
   \<and> \<not> ok 500
   \<and> callApiWithBackoff sample_parse recovers sample_request 3
       = (Inr (JObj []), [Fetch sample_request, Fetch sample_request])"
  by (simp add: callApiWithBackoff_def callApiWithBackoff_from.simps recovers_def
      sample_parse_def ok_def after_def)

text \<open>
  C2, the code at three answers with status 429: callApiWithBackoff waits after each of
  them, makes no fourth call and returns \<open>undefined\<close> instead of failing; the handlers
  then read a property of \<open>undefined\<close>, and the client gets status 500 with the message
  of that TypeError, in which nothing names the rate limit.
\<close>

theorem exhausted_rate_limit_returns_undefined:
  "callApiWithBackoff sample_parse always_429 sample_request 3
     = (Inr JUndef,
        [Fetch sample_request, Sleep 1000, Fetch sample_request, Sleep 2000,
         Fetch sample_request, Sleep 4000])
   \<and> fst (generateImage_handler sample_parse (Some ''secret'') (post prompt_only_text) always_429)
     = Inr \<lparr>statusCode = 500, headers = CORS_HEADERS,
            body = error_body
              ''Generation Error: Failed to generate image. Cannot read properties of undefined (reading 'predictions')''\<rparr>
   \<and> fst (multimodal_handler sample_parse (Some ''secret'') (post with_logo_text) always_429)
     = Inr \<lparr>statusCode = 500, headers = CORS_HEADERS,
            body = error_body
              ''Generation Error: Failed to generate image. Cannot read properties of undefined (reading 'candidates')''\<rparr>"
  by (simp add: handler_defs sample_defs)

section \<open>Properties of the payload\<close>

text \<open>
  What the stripping keeps of a string with a comma: the text between the first comma and
  the next one. With a single comma that is all the text after it.
\<close>

lemma strip_keeps_second_segment:
  assumes "CHR '','' \<notin> set a"
  shows "strip_data_uri (JStr (a @ CHR '','' # b))
         = Inr (JStr (takeWhile (\<lambda>c. c \<noteq> CHR '','') b))"
proof -
  obtain w ws where w: "split_on (CHR '','') b = w # ws"
    using split_on_nonempty [of "CHR '',''" b] by (cases "split_on (CHR '','') b") auto
  with hd_split_on [of "CHR '',''" b] have "w = takeWhile (\<lambda>c. c \<noteq> CHR '','') b" by simp
  with w assms show ?thesis by (simp add: split_on_first)
qed

text \<open>A string with a comma always leaves a string: \<^verbatim>\<open>split(',')[1]\<close> exists.\<close>

lemma strip_comma_is_string:
  assumes "CHR '','' \<in> set d"
  shows "\<exists>s. strip_data_uri (JStr d) = Inr (JStr s)"
proof -
  from assms obtain a b where "d = a @ CHR '','' # b" and "CHR '','' \<notin> set a"
    by (auto dest: split_list_first)
  with strip_keeps_second_segment [of a b] show ?thesis by blast
qed

lemma strip_one_comma:
  assumes "CHR '','' \<notin> set a" and "CHR '','' \<notin> set b"
  shows "strip_data_uri (JStr (a @ CHR '','' # b)) = Inr (JStr b)"
  using assms by (simp add: split_on_first split_on_no_sep)

text \<open>
  C3, the code at two inputs. With two commas in \<^verbatim>\<open>logoData.data\<close> the multi-modal handler
  forwards the text between them (\<^verbatim>\<open>AAAA\<close>), not the text after the first comma
  (\<^verbatim>\<open>AAAA,BBBB\<close>). The handler of generate-jersey.js forwards the data as it came, with
  its data-URI prefix.
\<close>

theorem data_after_first_comma_not_forwarded:
  "rawBase64Data (logo_value ''data:image/png;base64,AAAA,BBBB'') = Inr (JStr ''AAAA'')
   \<and> snd (multimodal_handler sample_parse (Some ''secret'') (post two_commas_text) always_500)
     = [Fetch (logo_request ''AAAA''), Fetch (logo_request ''AAAA''), Fetch (logo_request ''AAAA'')]
   \<and> snd (generate_jersey_handler sample_parse (Some ''secret'') (post with_logo_text) always_500)
     = [Fetch (logo_request ''data:image/png;base64,AAAA'')]"
  by (simp add: handler_defs sample_defs)

section \<open>Properties of the request checks\<close>

text \<open>
  The two handlers with a prompt check. With the API key configured, a POST whose body
  parses to a value with a missing or falsy \<^verbatim>\<open>prompt\<close> gets status 400 from the handler
  of generateImage.js and from the handler of part_001, and no network call is made.
\<close>

lemma missing_prompt_is_400:
  assumes "httpMethod ev = ''POST''" and "configured API_KEY"
    and "parse (rawBody ev) = Inr parsed" and "get parsed ''prompt'' = Inr prompt"
    and "\<not> truthy prompt"
  shows "generateImage_handler parse API_KEY ev fetch = (Inr missing_prompt, [])
       \<and> multimodal_handler parse API_KEY ev fetch = (Inr missing_prompt, [])
       \<and> statusCode missing_prompt = 400"
proof -
  from assms(2) obtain key where key: "API_KEY = Some key" "key \<noteq> []"
    by (cases API_KEY) auto
  from assms(4) have nn: "\<not> nullish parsed"
    by (rule get_not_nullish)
  show ?thesis
    using assms(1,3,4,5) key nn
    by (simp add: generateImage_handler_def generateImage_try_def multimodal_handler_def
        multimodal_try_def and_then_def destructure_def missing_prompt_def)
qed

text \<open>An instance: the body \<^verbatim>\<open>{}\<close> has no prompt.\<close>

lemma missing_prompt_is_400_example:
  "generateImage_handler sample_parse (Some ''secret'') (post empty_object_text) always_500
     = (Inr missing_prompt, [])
   \<and> multimodal_handler sample_parse (Some ''secret'') (post empty_object_text) always_500
     = (Inr missing_prompt, [])
   \<and> statusCode missing_prompt = 400"
  using missing_prompt_is_400
    [of "post empty_object_text" "Some ''secret''" sample_parse "JObj []" JUndef always_500]
  by (simp add: post_def sample_parse_def)

text \<open>
  C4, the code at the failing input. The handler of generate-jersey.js has no prompt
  check. With the key configured, a POST whose body holds a logo and no \<^verbatim>\<open>prompt\<close> is
  sent upstream with an undefined \<^verbatim>\<open>text\<close> part: one network call is made, and when the
  upstream answers with an image the handler returns 200, not 400.
\<close>

theorem jersey_forwards_missing_prompt:
  "sample_parse logo_only_text = Inr (JObj [(''logoData'', logo_value ''AAAA'')])
   \<and> get (JObj [(''logoData'', logo_value ''AAAA'')]) ''prompt'' = Inr JUndef
   \<and> generate_jersey_handler sample_parse (Some ''secret'') (post logo_only_text)
         (answers 200 image_text)
     = (Inr \<lparr>statusCode = 200, headers = ALLOW_ORIGIN,
            body = Json (JObj [(''base64Data'', JStr ''QUJD'')])\<rparr>,
        [Fetch (json_post (gemini_url ''secret'')
                  (gemini_payload JUndef (JStr ''image/png'') (JStr ''AAAA'')))])
   \<and> calls (snd (generate_jersey_handler sample_parse (Some ''secret'') (post logo_only_text)
                    (answers 200 image_text)))
     = 1"
  by (simp add: handler_defs sample_defs calls_def)

text \<open>
  Whatever the upstream answers, a POST with a logo and no prompt makes the handler of
  generate-jersey.js call it once.
\<close>

lemma jersey_calls_upstream_without_prompt:
  assumes "httpMethod ev = ''POST''" and "key \<noteq> []"
    and "parse (rawBody ev) = Inr parsed" and "get parsed ''prompt'' = Inr prompt"
    and "get (opt_get parsed ''logoData'') ''mimeType'' = Inr mimeType"
  shows "snd (generate_jersey_handler parse (Some key) ev fetch)
         = [Fetch (json_post (gemini_url key)
                     (gemini_payload prompt mimeType (opt_get (opt_get parsed ''logoData'') ''data'')))]"
  using assms get_not_nullish [OF assms(4)]
  by (simp add: generate_jersey_handler_def generate_jersey_try_def and_then_def destructure_def
      Let_def split: prod.splits sum.splits)

lemma imagen_sends_prompt_only:
  assumes "httpMethod ev = ''POST''" and "key \<noteq> []"
    and "parse (rawBody ev) = Inr parsed" and "get parsed ''prompt'' = Inr prompt" and "truthy prompt"
  shows "\<exists>tr. snd (generateImage_handler parse (Some key) ev fetch)
              = Fetch (json_post (imagen_url key) (imagen_payload prompt)) # tr
            \<and> (\<forall>e \<in> set tr. is_fetch e \<longrightarrow> e = Fetch (json_post (imagen_url key) (imagen_payload prompt)))"
proof -
  from assms(4) have nn: "\<not> nullish parsed"
    by (rule get_not_nullish)
  let ?req = "json_post (imagen_url key) (imagen_payload prompt)"
  have "snd (generateImage_handler parse (Some key) ev fetch) = snd (callApiWithBackoff parse fetch ?req 3)"
    using assms nn
    by (simp add: generateImage_handler_def generateImage_try_def and_then_def destructure_def
        split: prod.splits sum.splits)
  with call_trace [of 3 parse fetch ?req] show ?thesis by simp
qed

lemma multimodal_needs_logo:
  assumes "httpMethod ev = ''POST''" and "key \<noteq> []"
    and "parse (rawBody ev) = Inr parsed" and "get parsed ''prompt'' = Inr prompt" and "truthy prompt"
    and "nullish (opt_get parsed ''logoData'')"
  shows "multimodal_handler parse (Some key) ev fetch
     = (Inr \<lparr>statusCode = 500, headers = CORS_HEADERS,
            body = error_body (''Generation Error: Failed to generate image. ''
                     @ message (cannot_read (opt_get parsed ''logoData'') ''data''))\<rparr>, [])"
proof -
  from assms(4) have nn: "\<not> nullish parsed"
    by (rule get_not_nullish)
  from assms(6) have g: "get (opt_get parsed ''logoData'') ''data''
      = Inl (cannot_read (opt_get parsed ''logoData'') ''data'')"
    by (cases "opt_get parsed ''logoData''") auto
  show ?thesis
    using assms(1-5) nn g catch_block_plain [OF no_match_cannot_read_data [OF assms(6)], of parse]
    by (simp add: multimodal_handler_def multimodal_try_def and_then_def destructure_def
        rawBase64Data_def)
qed

lemma jersey_needs_logo:
  assumes "httpMethod ev = ''POST''" and "key \<noteq> []"
    and "parse (rawBody ev) = Inr parsed" and "get parsed ''prompt'' = Inr prompt"
    and "nullish (opt_get parsed ''logoData'')"
  shows "generate_jersey_handler parse (Some key) ev fetch
     = (Inr \<lparr>statusCode = 500, headers = ALLOW_ORIGIN,
            body = error_body (''Internal server error: ''
                     @ message (cannot_read (opt_get parsed ''logoData'') ''mimeType''))\<rparr>, [])"
proof -
  from assms(4) have nn: "\<not> nullish parsed"
    by (rule get_not_nullish)
  from assms(5) have g: "get (opt_get parsed ''logoData'') ''mimeType''
      = Inl (cannot_read (opt_get parsed ''logoData'') ''mimeType'')"
    by (cases "opt_get parsed ''logoData''") auto
  show ?thesis
    using assms(1-4) nn g
    by (simp add: generate_jersey_handler_def generate_jersey_try_def and_then_def destructure_def)
qed

text \<open>
  C5, as the code has it. For a POST with a truthy prompt and no \<^verbatim>\<open>logoData\<close> (and the key
  configured), the handler of generateImage.js sends the prompt-only payload upstream, and
  every network call it makes sends that payload. The two multi-modal handlers read a
  property of the missing \<^verbatim>\<open>logoData\<close>: they make no network call and answer 500.
\<close>

theorem prompt_without_logo:
  assumes "httpMethod ev = ''POST''" and "key \<noteq> []"
    and "parse (rawBody ev) = Inr parsed" and "get parsed ''prompt'' = Inr prompt" and "truthy prompt"
    and "nullish (opt_get parsed ''logoData'')"
  shows "(\<exists>tr. snd (generateImage_handler parse (Some key) ev fetch)
              = Fetch (json_post (imagen_url key) (imagen_payload prompt)) # tr
            \<and> (\<forall>e \<in> set tr. is_fetch e \<longrightarrow> e = Fetch (json_post (imagen_url key) (imagen_payload prompt))))
       \<and> multimodal_handler parse (Some key) ev fetch
         = (Inr \<lparr>statusCode = 500, headers = CORS_HEADERS,
                body = error_body (''Generation Error: Failed to generate image. ''
                         @ message (cannot_read (opt_get parsed ''logoData'') ''data''))\<rparr>, [])
       \<and> generate_jersey_handler parse (Some key) ev fetch
         = (Inr \<lparr>statusCode = 500, headers = ALLOW_ORIGIN,
                body = error_body (''Internal server error: ''
                         @ message (cannot_read (opt_get parsed ''logoData'') ''mimeType''))\<rparr>, [])"
proof (intro conjI)
  show "\<exists>tr. snd (generateImage_handler parse (Some key) ev fetch)
              = Fetch (json_post (imagen_url key) (imagen_payload prompt)) # tr
            \<and> (\<forall>e \<in> set tr. is_fetch e \<longrightarrow> e = Fetch (json_post (imagen_url key) (imagen_payload prompt)))"
    using assms(1-5) by (rule imagen_sends_prompt_only)
  show "multimodal_handler parse (Some key) ev fetch
         = (Inr \<lparr>statusCode = 500, headers = CORS_HEADERS,
                body = error_body (''Generation Error: Failed to generate image. ''
                         @ message (cannot_read (opt_get parsed ''logoData'') ''data''))\<rparr>, [])"
    using assms by (rule multimodal_needs_logo)
  show "generate_jersey_handler parse (Some key) ev fetch
         = (Inr \<lparr>statusCode = 500, headers = ALLOW_ORIGIN,
                body = error_body (''Internal server error: ''
                         @ message (cannot_read (opt_get parsed ''logoData'') ''mimeType''))\<rparr>, [])"
    using assms(1-4) assms(6) by (rule jersey_needs_logo)
qed

text \<open>C5, an instance: the body holds a prompt and nothing else.\<close>

theorem prompt_without_logo_witness:
  "(\<exists>tr. snd (generateImage_handler sample_parse (Some ''secret'') (post prompt_only_text) always_500)
              = Fetch sample_request # tr
            \<and> (\<forall>e \<in> set tr. is_fetch e \<longrightarrow> e = Fetch sample_request))
       \<and> multimodal_handler sample_parse (Some ''secret'') (post prompt_only_text) always_500
         = (Inr \<lparr>statusCode = 500, headers = CORS_HEADERS,
                body = error_body
                  ''Generation Error: Failed to generate image. Cannot read properties of undefined (reading 'data')''\<rparr>, [])
       \<and> generate_jersey_handler sample_parse (Some ''secret'') (post prompt_only_text) always_500
         = (Inr \<lparr>statusCode = 500, headers = ALLOW_ORIGIN,
                body = error_body
                  ''Internal server error: Cannot read properties of undefined (reading 'mimeType')''\<rparr>, [])"
proof -
  have h1: "httpMethod (post prompt_only_text) = ''POST''" by (simp add: post_def)
  have h2: "''secret'' \<noteq> []" by simp
  have h3: "sample_parse (rawBody (post prompt_only_text)) = Inr (JObj [(''prompt'', JStr ''a red jersey'')])"
    by (simp add: sample_defs)
  have h4: "get (JObj [(''prompt'', JStr ''a red jersey'')]) ''prompt'' = Inr (JStr ''a red jersey'')"
    by simp
  have h5: "truthy (JStr ''a red jersey'')" by simp
  have h6: "nullish (opt_get (JObj [(''prompt'', JStr ''a red jersey'')]) ''logoData'')"
    by (simp add: opt_get_def)
  from prompt_without_logo
    [where parse = sample_parse and ev = "post prompt_only_text" and key = "''secret''"
       and parsed = "JObj [(''prompt'', JStr ''a red jersey'')]" and prompt = "JStr ''a red jersey''"
       and fetch = always_500, OF h1 h2 h3 h4 h5 h6]
  show ?thesis
    by (simp add: sample_request_def opt_get_def cannot_read_def)
qed

text \<open>
  C5 as stated fails: the multi-modal handler does not forward a request that has a
  prompt and no image. It makes no network call and answers 500.
\<close>

theorem prompt_without_logo_rejected_counterexample:
  "sample_parse prompt_only_text = Inr (JObj [(''prompt'', JStr ''a red jersey'')])
   \<and> multimodal_handler sample_parse (Some ''secret'') (post prompt_only_text) (answers 200 empty_inline_text)
     = (Inr \<lparr>statusCode = 500, headers = CORS_HEADERS,
            body = error_body
              ''Generation Error: Failed to generate image. Cannot read properties of undefined (reading 'data')''\<rparr>, [])"
  by (simp add: handler_defs sample_defs)

section \<open>Properties of the responses\<close>

text \<open>
  C6, the code at two inputs. The handler of generate-jersey.js answers a request that is
  neither OPTIONS nor POST, and any request when the key is not configured, with a
  response that has no headers, so without \<^verbatim>\<open>Access-Control-Allow-Origin\<close>.
\<close>

theorem jersey_early_responses_lack_allow_origin:
  "generate_jersey_handler sample_parse (Some ''secret'') get_request always_500
     = (Inr \<lparr>statusCode = 405, headers = [], body = error_body ''Method Not Allowed''\<rparr>, [])
   \<and> \<not> has_allow_origin \<lparr>statusCode = 405, headers = [], body = error_body ''Method Not Allowed''\<rparr>
   \<and> generate_jersey_handler sample_parse None (post with_logo_text) always_500
     = (Inr \<lparr>statusCode = 500, headers = [], body = key_error_body\<rparr>, [])
   \<and> \<not> has_allow_origin \<lparr>statusCode = 500, headers = [], body = key_error_body\<rparr>"
  by (simp add: generate_jersey_handler_def has_allow_origin_def post_def get_request_def)

section \<open>Properties of the classification of upstream answers\<close>

lemma empty_candidates_respond:
  assumes "get response ''candidates'' = Inr (JArr [])"
  shows "multimodal_respond response = Inr input_rejected"
  using assms opt_get_get [OF assms]
  by (simp add: multimodal_respond_def gemini_extract_def and_then_def opt_idx0_def opt_get_def)

text \<open>
  C7. When the multi-modal handler with callApiWithBackoff gets an upstream answer whose
  \<^verbatim>\<open>candidates\<close> is the empty list, it returns the response \<open>input_rejected\<close>: status 400
  with the safety-guidelines message, which is not the response of the safety-ratings
  branch, whatever the ratings.
\<close>

theorem empty_candidates_is_input_rejected:
  assumes "httpMethod ev = ''POST''" and "key \<noteq> []"
    and "parse (rawBody ev) = Inr parsed" and "get parsed ''prompt'' = Inr prompt" and "truthy prompt"
    and "rawBase64Data (opt_get parsed ''logoData'') = Inr data"
    and "callApiWithBackoff parse fetch
           (json_post (gemini_url key)
              (gemini_payload prompt (opt_get (opt_get parsed ''logoData'') ''mimeType'') data)) 3
         = (Inr response, tr)"
    and "get response ''candidates'' = Inr (JArr [])"
  shows "fst (multimodal_handler parse (Some key) ev fetch) = Inr input_rejected
       \<and> statusCode input_rejected = 400
       \<and> body input_rejected
         = error_body ''Generation Error: The input or prompt may violate safety guidelines, or the model failed to generate output.''
       \<and> (\<forall>safetyRating. input_rejected \<noteq> no_image_response safetyRating)"
  using multimodal_reaches [of ev key parse parsed prompt data fetch response tr] assms(1-7)
    empty_candidates_respond [OF assms(8)]
  by (simp add: input_rejected_def no_image_response_def)

text \<open>C7, an instance: the upstream answers 200 with \<^verbatim>\<open>{"candidates":[]}\<close>.\<close>

theorem empty_candidates_is_input_rejected_witness:
  "fst (multimodal_handler sample_parse (Some ''secret'') (post with_logo_text)
          (answers 200 no_candidates_text))
     = Inr input_rejected
   \<and> statusCode input_rejected = 400
   \<and> body input_rejected
     = error_body ''Generation Error: The input or prompt may violate safety guidelines, or the model failed to generate output.''
   \<and> (\<forall>safetyRating. input_rejected \<noteq> no_image_response safetyRating)"
proof -
  let ?parsed = "JObj [(''prompt'', JStr ''a red jersey''),
                       (''logoData'', logo_value ''data:image/png;base64,AAAA'')]"
  have h1: "httpMethod (post with_logo_text) = ''POST''" by (simp add: post_def)
  have h2: "''secret'' \<noteq> []" by simp
  have h3: "sample_parse (rawBody (post with_logo_text)) = Inr ?parsed"
    by (simp add: sample_defs)
  have h4: "get ?parsed ''prompt'' = Inr (JStr ''a red jersey'')" by simp
  have h5: "truthy (JStr ''a red jersey'')" by simp
  have h6: "rawBase64Data (opt_get ?parsed ''logoData'') = Inr (JStr ''AAAA'')"
    by (simp add: rawBase64Data_def and_then_def opt_get_def logo_value_def)
  have h7: "callApiWithBackoff sample_parse (answers 200 no_candidates_text)
              (json_post (gemini_url ''secret'')
                 (gemini_payload (JStr ''a red jersey'')
                    (opt_get (opt_get ?parsed ''logoData'') ''mimeType'') (JStr ''AAAA''))) 3
            = (Inr (JObj [(''candidates'', JArr [])]), [Fetch (logo_request ''AAAA'')])"
    by (simp add: handler_defs sample_defs)
  have h8: "get (JObj [(''candidates'', JArr [])]) ''candidates'' = Inr (JArr [])" by simp
  show ?thesis
    by (rule empty_candidates_is_input_rejected
        [where parse = sample_parse and ev = "post with_logo_text" and key = "''secret''"
           and parsed = ?parsed and prompt = "JStr ''a red jersey''" and data = "JStr ''AAAA''"
           and fetch = "answers 200 no_candidates_text"
           and response = "JObj [(''candidates'', JArr [])]"
           and tr = "[Fetch (logo_request ''AAAA'')]", OF h1 h2 h3 h4 h5 h6 h7 h8])
qed

lemma str_includes_prepend: "str_includes s t \<Longrightarrow> str_includes (p @ s) t"
proof -
  assume "str_includes s t"
  then obtain a b where "s = a @ t @ b" by (auto simp: str_includes_iff)
  then have "p @ s = (p @ a) @ t @ b" by simp
  then show ?thesis unfolding str_includes_iff by blast
qed

text \<open>
  The summary of a list of ratings in which every rating has a string category and a
  probability that prints: it is not empty, and it holds the category tail and the
  probability of each rating.
\<close>

lemma safety_summary_names_rating:
  assumes "rating \<in> set ratings"
    and "\<forall>r \<in> set ratings. \<exists>c. get r ''category'' = Inr (JStr c) \<and> convertible (opt_get r ''probability'')"
    and "get rating ''category'' = Inr (JStr category)"
  shows "\<exists>joined. safety_summary (JArr ratings) = Inr (JStr joined) \<and> joined \<noteq> []
           \<and> str_includes joined (last (split_on (CHR ''_'') category))
           \<and> str_includes joined (to_string (opt_get rating ''probability''))"
proof -
  let ?g = "\<lambda>r. (case rating_text r of Inr s \<Rightarrow> s | Inl e \<Rightarrow> [])"
  let ?joined = "join_with ''; '' (map ?g ratings)"
  have each: "\<forall>r \<in> set ratings. rating_text r = Inr (?g r)"
  proof
    fix r assume "r \<in> set ratings"
    with assms(2) obtain c where "get r ''category'' = Inr (JStr c)"
      and "convertible (opt_get r ''probability'')" by blast
    then show "rating_text r = Inr (?g r)" by (simp add: rating_text_ok)
  qed
  then have summary: "safety_summary (JArr ratings) = Inr (JStr ?joined)"
    by (simp add: map_throw_ok and_then_def)
  from assms have conv: "convertible (opt_get rating ''probability'')" by auto
  have label: "?g rating
      = last (split_on (CHR ''_'') category) @ '': '' @ to_string (opt_get rating ''probability'')"
    using rating_text_ok [OF assms(3) conv] by simp
  from assms(1) have "?g rating \<in> set (map ?g ratings)" by simp
  then have inc: "str_includes ?joined (?g rating)" by (rule join_with_includes)
  from label have "?g rating \<noteq> []" by simp
  with inc have nonempty: "?joined \<noteq> []" by (auto simp: str_includes_iff)
  have "str_includes (?g rating) (last (split_on (CHR ''_'') category))"
    using str_includes_append [of "[]" "last (split_on (CHR ''_'') category)"] label by simp
  with inc have a: "str_includes ?joined (last (split_on (CHR ''_'') category))"
    by (rule str_includes_trans)
  have "str_includes (?g rating) (to_string (opt_get rating ''probability''))"
    using str_includes_append
      [of "last (split_on (CHR ''_'') category) @ '': ''" "to_string (opt_get rating ''probability'')" "[]"]
      label
    by simp
  with inc have b: "str_includes ?joined (to_string (opt_get rating ''probability''))"
    by (rule str_includes_trans)
  from summary nonempty a b show ?thesis by blast
qed

lemma filtered_response:
  assumes "joined \<noteq> []"
  shows "no_image_response (JStr joined)
         = \<lparr>statusCode = 500, headers = CORS_HEADERS,
            body = error_body (''Generation Error: Image was filtered by safety systems. Ratings: '' @ joined)\<rparr>"
  using assms by (simp add: no_image_response_def filtered_message_def)


text \<open>The same for the handler of generateImage.js, which looks at the ratings of the first candidate when no prediction carries image data.\<close>

lemma imagen_safety_ratings_respond:
  assumes "imagen_extract response = Inr base64Data" and "\<not> truthy base64Data"
    and "opt_get (opt_idx0 (opt_get response ''candidates'')) ''safetyRatings'' = JArr ratings"
    and "rating \<in> set ratings"
    and "\<forall>r \<in> set ratings. \<exists>c. get r ''category'' = Inr (JStr c) \<and> convertible (opt_get r ''probability'')"
    and "get rating ''category'' = Inr (JStr category)"
  shows "\<exists>msg. imagen_respond response
               = Inr \<lparr>statusCode = 500, headers = CORS_HEADERS, body = error_body msg\<rparr>
             \<and> str_includes msg (last (split_on (CHR ''_'') category))
             \<and> str_includes msg (to_string (opt_get rating ''probability''))"
proof -
  from safety_summary_names_rating [OF assms(4,5,6)] obtain joined
    where j: "safety_summary (JArr ratings) = Inr (JStr joined)" "joined \<noteq> []"
      "str_includes joined (last (split_on (CHR ''_'') category))"
      "str_includes joined (to_string (opt_get rating ''probability''))"
    by blast
  let ?msg = "''Generation Error: Image was filtered by safety systems. Ratings: '' @ joined"
  have "imagen_respond response = Inr (no_image_response (JStr joined))"
    using assms(1,2,3) j(1)
    by (simp add: imagen_respond_def and_then_def)
  with filtered_response [OF j(2)]
  have "imagen_respond response
        = Inr \<lparr>statusCode = 500, headers = CORS_HEADERS, body = error_body ?msg\<rparr>"
    by simp
  with str_includes_prepend [OF j(3)] str_includes_prepend [OF j(4)] show ?thesis by blast
qed




section \<open>Properties of the handler boundary\<close>

text \<open>
  What holds for every input. The handler of generate-jersey.js always returns a
  response, and each of its responses with a status other than 200 has a JSON error body.
  The two handlers with callApiWithBackoff return a response or throw the TypeError of the
  template literal in their catch block; a response of theirs with a status other than 200
  has a JSON error body or one of the plain texts \<^verbatim>\<open>Method Not Allowed\<close> (405) and
  \<^verbatim>\<open>Missing prompt\<close> (400).
\<close>

lemma handler_outcomes:
  "((\<exists>r. fst (generateImage_handler parse API_KEY ev fetch) = Inr r
         \<and> (statusCode r = 200 \<or> failure_body r))
     \<or> fst (generateImage_handler parse API_KEY ev fetch)
         = Inl (TypeError ''Cannot convert object to primitive value''))
   \<and> ((\<exists>r. fst (multimodal_handler parse API_KEY ev fetch) = Inr r
         \<and> (statusCode r = 200 \<or> failure_body r))
     \<or> fst (multimodal_handler parse API_KEY ev fetch)
         = Inl (TypeError ''Cannot convert object to primitive value''))
   \<and> (\<exists>r. fst (generate_jersey_handler parse API_KEY ev fetch) = Inr r
         \<and> (statusCode r = 200 \<or> json_error_body (body r)))"
proof (intro conjI)
  show "(\<exists>r. fst (generateImage_handler parse API_KEY ev fetch) = Inr r
         \<and> (statusCode r = 200 \<or> failure_body r))
     \<or> fst (generateImage_handler parse API_KEY ev fetch)
         = Inl (TypeError ''Cannot convert object to primitive value'')"
    using generateImage_handler_outcome [of parse API_KEY ev fetch]
      generateImage_handler_shape [of parse API_KEY ev fetch]
    by blast
  show "(\<exists>r. fst (multimodal_handler parse API_KEY ev fetch) = Inr r
         \<and> (statusCode r = 200 \<or> failure_body r))
     \<or> fst (multimodal_handler parse API_KEY ev fetch)
         = Inl (TypeError ''Cannot convert object to primitive value'')"
    using multimodal_handler_outcome [of parse API_KEY ev fetch]
      multimodal_handler_shape [of parse API_KEY ev fetch]
    by blast
  show "\<exists>r. fst (generate_jersey_handler parse API_KEY ev fetch) = Inr r
         \<and> (statusCode r = 200 \<or> json_error_body (body r))"
    using generate_jersey_handler_responds [of parse API_KEY ev fetch] by blast
qed

text \<open>
  C9, the code at the failing input. The upstream answers every attempt with status 500
  and the body \<^verbatim>\<open>{"error":{"message":{"toString":1}}}\<close>. callApiWithBackoff throws the
  error that carries this body, the catch block of the handler unwraps the nested
  \<^verbatim>\<open>error.message\<close>, an object whose own \<^verbatim>\<open>toString\<close> is not a function, and the template
  literal that builds the response body, which stands outside the inner \<^verbatim>\<open>try\<close>, throws
  a TypeError. The exception leaves the handler of generateImage.js and the handler of
  part_001: no response is returned.
\<close>

theorem exception_leaves_handler:
  "sample_parse hostile_text
     = Inr (JObj [(''error'', JObj [(''message'', JObj [(''toString'', JNum 1)])])])
   \<and> generateImage_handler sample_parse (Some ''secret'') (post prompt_only_text)
         (answers 500 hostile_text)
     = (Inl (TypeError ''Cannot convert object to primitive value''),
        [Fetch sample_request, Fetch sample_request, Fetch sample_request])
   \<and> multimodal_handler sample_parse (Some ''secret'') (post with_logo_text)
         (answers 500 hostile_text)
     = (Inl (TypeError ''Cannot convert object to primitive value''),
        [Fetch (logo_request ''AAAA''), Fetch (logo_request ''AAAA''), Fetch (logo_request ''AAAA'')])"
  by (simp add: handler_defs sample_defs show_nat_500)

text \<open>
  The bodies of the 405 and of the missing-prompt 400 of these two handlers are plain
  texts, not JSON.
\<close>

lemma plain_text_failures:
  "fst (generateImage_handler sample_parse (Some ''secret'') get_request always_500)
     = Inr method_not_allowed
   \<and> \<not> json_error_body (body method_not_allowed)
   \<and> \<not> json_error_body (body missing_prompt)"
  by (simp add: generateImage_handler_def get_request_def method_not_allowed_def
      missing_prompt_def json_error_body_def)

section \<open>Properties of the image extraction\<close>

lemma imagen_respond_falsy:
  assumes "imagen_extract response = Inr base64Data" and "\<not> truthy base64Data"
  shows "\<exists>r. (case imagen_respond response of Inl e \<Rightarrow> catch_block parse e | Inr r \<Rightarrow> Inr r) = Inr r
           \<and> statusCode r = 500 \<and> json_error_body (body r)"
proof (cases "safety_summary (opt_get (opt_idx0 (opt_get response ''candidates'')) ''safetyRatings'')")
  case (Inl e)
  with assms have "imagen_respond response = Inl e"
    by (simp add: imagen_respond_def and_then_def)
  with catch_block_plain [OF safety_summary_error [OF Inl], of parse] show ?thesis
    by simp
next
  case (Inr s)
  with assms have "imagen_respond response = Inr (no_image_response s)"
    by (simp add: imagen_respond_def and_then_def)
  with no_image_response_shape [of s] show ?thesis by simp
qed

text \<open>
  C10. When the upstream call succeeded and the value extracted from the answer is falsy,
  in particular when the image field is present and is the empty string, the handler of
  generateImage.js (field \<^verbatim>\<open>bytesBase64Encoded\<close> of the first prediction) and the handler of
  generate-jersey.js (field \<^verbatim>\<open>data\<close> of the first inline-data part) answer 500 with a JSON
  error body: the success response needs a truthy, hence non-empty, extracted value.
\<close>

theorem falsy_image_field_is_failure:
  assumes "httpMethod ev = ''POST''" and "key \<noteq> []"
    and "parse (rawBody ev) = Inr parsed" and "get parsed ''prompt'' = Inr prompt" and "truthy prompt"
  shows "(callApiWithBackoff parse fetch (json_post (imagen_url key) (imagen_payload prompt)) 3
            = (Inr response, tr)
          \<and> imagen_extract response = Inr base64Data \<and> \<not> truthy base64Data
          \<longrightarrow> (\<exists>r. fst (generateImage_handler parse (Some key) ev fetch) = Inr r
                 \<and> statusCode r = 500 \<and> json_error_body (body r)))
       \<and> (get (opt_get parsed ''logoData'') ''mimeType'' = Inr mimeType
          \<and> fetch 0 (json_post (gemini_url key)
                       (gemini_payload prompt mimeType (opt_get (opt_get parsed ''logoData'') ''data'')))
              = Responds st (Inr reply)
          \<and> ok st \<and> parse reply = Inr result
          \<and> gemini_extract result = Inr inlineData \<and> \<not> truthy inlineData
          \<longrightarrow> fst (generate_jersey_handler parse (Some key) ev fetch)
                = Inr \<lparr>statusCode = 500, headers = ALLOW_ORIGIN,
                       body = error_body ''Image generation failed to return data.''\<rparr>)"
proof (intro conjI impI)
  assume a: "callApiWithBackoff parse fetch (json_post (imagen_url key) (imagen_payload prompt)) 3
            = (Inr response, tr)
          \<and> imagen_extract response = Inr base64Data \<and> \<not> truthy base64Data"
  then have run: "callApiWithBackoff parse fetch (json_post (imagen_url key) (imagen_payload prompt)) 3
            = (Inr response, tr)" by simp
  from a imagen_respond_falsy [of response base64Data parse]
    generateImage_reaches [of ev key parse parsed prompt fetch response tr] assms run
  show "\<exists>r. fst (generateImage_handler parse (Some key) ev fetch) = Inr r
                 \<and> statusCode r = 500 \<and> json_error_body (body r)"
    by simp
next
  assume b: "get (opt_get parsed ''logoData'') ''mimeType'' = Inr mimeType
          \<and> fetch 0 (json_post (gemini_url key)
                       (gemini_payload prompt mimeType (opt_get (opt_get parsed ''logoData'') ''data'')))
              = Responds st (Inr reply)
          \<and> ok st \<and> parse reply = Inr result
          \<and> gemini_extract result = Inr inlineData \<and> \<not> truthy inlineData"
  with assms get_not_nullish [OF assms(4)]
  show "fst (generate_jersey_handler parse (Some key) ev fetch)
                = Inr \<lparr>statusCode = 500, headers = ALLOW_ORIGIN,
                       body = error_body ''Image generation failed to return data.''\<rparr>"
    by (simp add: generate_jersey_handler_def generate_jersey_try_def and_then_def destructure_def
        jersey_respond_def Let_def)
qed

text \<open>
  C10, an instance: both endpoints answer 200 with an image field that is the empty
  string, \<^verbatim>\<open>{"predictions":[{"bytesBase64Encoded":""}]}\<close> and an inline-data part with
  \<^verbatim>\<open>"data":""\<close>.
\<close>

theorem falsy_image_field_is_failure_witness:
  "(\<exists>r. fst (generateImage_handler sample_parse (Some ''secret'') (post with_logo_text) empty_images) = Inr r
       \<and> statusCode r = 500 \<and> json_error_body (body r))
   \<and> fst (generate_jersey_handler sample_parse (Some ''secret'') (post with_logo_text) empty_images)
     = Inr \<lparr>statusCode = 500, headers = ALLOW_ORIGIN,
            body = error_body ''Image generation failed to return data.''\<rparr>"
proof -
  let ?parsed = "JObj [(''prompt'', JStr ''a red jersey''),
                       (''logoData'', logo_value ''data:image/png;base64,AAAA'')]"
  let ?response = "JObj [(''predictions'', JArr [JObj [(''bytesBase64Encoded'', JStr [])]])]"
  have h1: "httpMethod (post with_logo_text) = ''POST''" by (simp add: post_def)
  have h2: "''secret'' \<noteq> []" by simp
  have h3: "sample_parse (rawBody (post with_logo_text)) = Inr ?parsed"
    by (simp add: sample_defs)
  have h4: "get ?parsed ''prompt'' = Inr (JStr ''a red jersey'')" by simp
  have h5: "truthy (JStr ''a red jersey'')" by simp
  note inst = falsy_image_field_is_failure
    [where parse = sample_parse and ev = "post with_logo_text" and key = "''secret''"
       and parsed = ?parsed and prompt = "JStr ''a red jersey''" and fetch = empty_images
       and response = ?response and tr = "[Fetch sample_request]" and base64Data = "JStr []"
       and mimeType = "JStr ''image/png''" and st = 200 and reply = empty_inline_text
       and result = empty_inline_value and inlineData = "JStr []",
     OF h1 h2 h3 h4 h5]
  have i1: "callApiWithBackoff sample_parse empty_images
              (json_post (imagen_url ''secret'') (imagen_payload (JStr ''a red jersey''))) 3
            = (Inr ?response, [Fetch sample_request])"
    by (simp add: handler_defs sample_defs)
  have i2: "imagen_extract ?response = Inr (JStr [])"
    by (simp add: imagen_extract_def and_then_def opt_idx0_def opt_get_def)
  have j1: "get (opt_get ?parsed ''logoData'') ''mimeType'' = Inr (JStr ''image/png'')"
    by (simp add: opt_get_def logo_value_def)
  have j2: "empty_images 0 (json_post (gemini_url ''secret'')
               (gemini_payload (JStr ''a red jersey'') (JStr ''image/png'')
                  (opt_get (opt_get ?parsed ''logoData'') ''data'')))
            = Responds 200 (Inr empty_inline_text)"
    by (simp add: empty_images_def json_post_def gemini_url_def imagen_url_def)
  have j3: "ok 200" by (simp add: ok_def)
  have j4: "sample_parse empty_inline_text = Inr empty_inline_value"
    by (simp add: sample_parse_def sample_texts)
  have j5: "gemini_extract empty_inline_value = Inr (JStr [])"
    by (simp add: gemini_extract_def and_then_def opt_idx0_def opt_get_def empty_inline_value_def
        logo_value_def)
  from inst i1 i2 j1 j2 j3 j4 j5 show ?thesis by simp
qed

text \<open>
  The multi-modal handler with callApiWithBackoff does the same when \<^verbatim>\<open>candidates\<close> is a
  list with a first element: a falsy extracted value gives status 500.
\<close>

lemma multimodal_falsy_image_is_failure:
  assumes "httpMethod ev = ''POST''" and "key \<noteq> []"
    and "parse (rawBody ev) = Inr parsed" and "get parsed ''prompt'' = Inr prompt" and "truthy prompt"
    and "rawBase64Data (opt_get parsed ''logoData'') = Inr data"
    and "callApiWithBackoff parse fetch
           (json_post (gemini_url key)
              (gemini_payload prompt (opt_get (opt_get parsed ''logoData'') ''mimeType'') data)) 3
         = (Inr response, tr)"
    and "gemini_extract response = Inr inline" and "\<not> truthy inline"
    and "get response ''candidates'' = Inr (JArr (candidate # others))"
  shows "\<exists>r. fst (multimodal_handler parse (Some key) ev fetch) = Inr r
           \<and> statusCode r = 500 \<and> json_error_body (body r)"
proof (cases "safety_summary (opt_get candidate ''safetyRatings'')")
  case (Inl e)
  with assms(8,9,10) have "multimodal_respond response = Inl e"
    by (simp add: multimodal_respond_def and_then_def opt_get_def)
  with catch_block_plain [OF safety_summary_error [OF Inl], of parse]
    multimodal_reaches [of ev key parse parsed prompt data fetch response tr] assms(1-7)
  show ?thesis by simp
next
  case (Inr s)
  with assms(8,9,10) have "multimodal_respond response = Inr (no_image_response s)"
    by (simp add: multimodal_respond_def and_then_def opt_get_def)
  with no_image_response_shape [of s]
    multimodal_reaches [of ev key parse parsed prompt data fetch response tr] assms(1-7)
  show ?thesis by simp
qed

section \<open>Properties of the Apps Script function\<close>

text \<open>A status that is neither 200 nor 429 ends the function at once, after one network call.\<close>

lemma script_status_error_is_final:
  assumes "fetch 0 req = Responds st rd" and "st \<noteq> 200" and "st \<noteq> 429"
  shows "generateImage_from parse positive fetch req 0 = (JNull, [Fetch req])"
  using assms
  by (subst generateImage_from.simps) (simp add: MAX_RETRIES_def split: sum.splits)

text \<open>Three answers with status 429: two waits, three calls, and the function returns \<open>null\<close>.\<close>

lemma script_exhausted_rate_limit:
  "generateImage sample_parse positive (Some ''secret'') ''a red jersey'' always_429
   = (JNull,
      [Fetch (script_request ''secret'' ''a red jersey''), Sleep 1000,
       Fetch (script_request ''secret'' ''a red jersey''), Sleep 2000,
       Fetch (script_request ''secret'' ''a red jersey'')])"
  by (simp add: generateImage_def generateImage_from.simps MAX_RETRIES_def always_429_def
      answers_def after_def)

text \<open>An answer 200 whose extracted value is falsy, such as the empty string, gives \<open>null\<close>.\<close>

lemma script_falsy_image_is_null:
  assumes "fetch 0 req = Responds 200 (Inr responseText)" and "parse responseText = Inr result"
    and "script_extract positive result = Inr base64Image" and "\<not> truthy base64Image"
  shows "generateImage_from parse positive fetch req 0 = (JNull, [Fetch req])"
  using assms
  by (subst generateImage_from.simps) (simp add: MAX_RETRIES_def and_then_def)

lemma script_empty_image:
  "generateImage sample_parse positive (Some ''secret'') ''a red jersey'' (answers 200 empty_image_text)
   = (JNull, [Fetch (script_request ''secret'' ''a red jersey'')])"
  by (simp add: generateImage_def generateImage_from.simps MAX_RETRIES_def answers_def
      sample_parse_def sample_texts script_extract_def and_then_def opt_get_def)

end
